theory Spec2Isabelle
  imports Complex_Main
begin

section \<open>Python values\<close>

text \<open>
  The client works on decoded JSON: dictionaries with string keys, lists, strings,
  numbers, booleans and \<open>None\<close>. A dictionary is an association list that is read with
  \<open>map_of\<close>; a float is a rational or one of the three special values that Python's
  decoder accepts.
\<close>

datatype pyfloat = Finite rat | Infinity bool | NaN

datatype json =
    JNull
  | JBool bool
  | JInt int
  | JFloat pyfloat
  | JStr string
  | JList "json list"
  | JDict "(string \<times> json) list"

text \<open>
  The exceptions that the code can meet. A \<open>KeyError\<close> is raised for a string key,
  a \<open>KeyErrorInt\<close> for an integer key. \<open>Timeout\<close>, \<open>RequestException\<close> and
  \<open>RequestsJSONDecodeError\<close> belong to the family of \<open>requests.RequestException\<close>; the
  others do not. A \<open>RequestException\<close> may carry the response that caused it.
\<close>

datatype decode_error =
    RequestsDecodeError string
  | PlainValueError string

record http_response =
  status_code :: int
  reason :: string
  resp_url :: string
  content_type :: "string option"
  content :: string
  json_body :: "decode_error + json"
  stream_error :: "string option"

datatype py_exn =
    KeyError string
  | KeyErrorInt int
  | IndexError string
  | TypeError string
  | AttributeError string
  | ValueError string
  | OtherException string
  | Timeout string
  | RequestException string "http_response option"
  | RequestsJSONDecodeError string

text \<open>Decimal text of an integer, as an f-string prints it.\<close>

function str_nat :: "nat \<Rightarrow> string" where
  "str_nat n = (if n < 10 then [''0123456789'' ! n] else str_nat (n div 10) @ [''0123456789'' ! (n mod 10)])"
  by pat_completeness auto
termination
  by (relation "measure (\<lambda>n. n)") auto

definition str_int :: "int \<Rightarrow> string" where
  "str_int i = (if i < 0 then ''-'' @ str_nat (nat (- i)) else str_nat (nat i))"

text \<open>\<open>str(e)\<close>: a \<open>KeyError\<close> prints the \<open>repr\<close> of its key, the others their message.
  The wording of the messages of the interpreter is that of CPython 3.11; no statement
  below depends on it.\<close>

definition quoted :: "string \<Rightarrow> string" where
  "quoted s = [CHR 0x27] @ s @ [CHR 0x27]"

fun str_exn :: "py_exn \<Rightarrow> string" where
  "str_exn (KeyError k) = quoted k"
| "str_exn (KeyErrorInt i) = str_int i"
| "str_exn (IndexError m) = m"
| "str_exn (TypeError m) = m"
| "str_exn (AttributeError m) = m"
| "str_exn (ValueError m) = m"
| "str_exn (OtherException m) = m"
| "str_exn (Timeout m) = m"
| "str_exn (RequestException m r) = m"
| "str_exn (RequestsJSONDecodeError m) = m"

text \<open>Sequencing of steps that may raise: the first exception ends the computation.\<close>

definition bnd :: "py_exn + 'a \<Rightarrow> ('a \<Rightarrow> py_exn + 'b) \<Rightarrow> py_exn + 'b" where
  "bnd m f = (case m of Inl e \<Rightarrow> Inl e | Inr x \<Rightarrow> f x)"

text \<open>Truth value of a Python object, as \<open>if x\<close>, \<open>not x\<close> and \<open>x or y\<close> test it.\<close>

fun truthy :: "json \<Rightarrow> bool" where
  "truthy JNull = False"
| "truthy (JBool b) = b"
| "truthy (JInt i) = (i \<noteq> 0)"
| "truthy (JFloat f) = (f \<noteq> Finite 0)"
| "truthy (JStr s) = (s \<noteq> [])"
| "truthy (JList xs) = (xs \<noteq> [])"
| "truthy (JDict kvs) = (kvs \<noteq> [])"

definition type_name :: "json \<Rightarrow> string" where
  "type_name v = (case v of JNull \<Rightarrow> ''NoneType'' | JBool _ \<Rightarrow> ''bool'' | JInt _ \<Rightarrow> ''int''
     | JFloat _ \<Rightarrow> ''float'' | JStr _ \<Rightarrow> ''str'' | JList _ \<Rightarrow> ''list'' | JDict _ \<Rightarrow> ''dict'')"

text \<open>\<open>obj[key]\<close> with a string key.\<close>

fun subscript_str :: "json \<Rightarrow> string \<Rightarrow> py_exn + json" where
  "subscript_str (JDict kvs) k = (case map_of kvs k of None \<Rightarrow> Inl (KeyError k) | Some v \<Rightarrow> Inr v)"
| "subscript_str (JList xs) k = Inl (TypeError ''list indices must be integers or slices, not str'')"
| "subscript_str (JStr s) k = Inl (TypeError (''string indices must be integers, not '' @ quoted ''str''))"
| "subscript_str v k = Inl (TypeError (quoted (type_name v) @ '' object is not subscriptable''))"

text \<open>\<open>obj[0]\<close>. A dictionary decoded from JSON has no integer key, so the key \<open>0\<close> is
  missing.\<close>

fun subscript_0 :: "json \<Rightarrow> py_exn + json" where
  "subscript_0 (JList []) = Inl (IndexError ''list index out of range'')"
| "subscript_0 (JList (x # xs)) = Inr x"
| "subscript_0 (JStr []) = Inl (IndexError ''string index out of range'')"
| "subscript_0 (JStr (c # cs)) = Inr (JStr [c])"
| "subscript_0 (JDict kvs) = Inl (KeyErrorInt 0)"
| "subscript_0 v = Inl (TypeError (quoted (type_name v) @ '' object is not subscriptable''))"

text \<open>\<open>obj.get(key, default)\<close>: only a dictionary has the method.\<close>

fun get_method :: "json \<Rightarrow> string \<Rightarrow> json \<Rightarrow> py_exn + json" where
  "get_method (JDict kvs) k d = (case map_of kvs k of None \<Rightarrow> Inr d | Some v \<Rightarrow> Inr v)"
| "get_method v k d = Inl (AttributeError (quoted (type_name v) @ '' object has no attribute '' @ quoted ''get''))"

fun starts_with :: "string \<Rightarrow> string \<Rightarrow> bool" where
  "starts_with s [] = True"
| "starts_with [] (p # ps) = False"
| "starts_with (c # cs) (p # ps) = (c = p \<and> starts_with cs ps)"

fun is_substr :: "string \<Rightarrow> string \<Rightarrow> bool" where
  "is_substr p [] = (p = [])"
| "is_substr p (c # cs) = (starts_with (c # cs) p \<or> is_substr p cs)"

text \<open>\<open>key in obj\<close> with a string key: a key of a dictionary, an element of a list, a
  substring of a string; any other object is not iterable.\<close>

fun py_in :: "string \<Rightarrow> json \<Rightarrow> py_exn + bool" where
  "py_in k (JDict kvs) = Inr (map_of kvs k \<noteq> None)"
| "py_in k (JList xs) = Inr (JStr k \<in> set xs)"
| "py_in k (JStr s) = Inr (is_substr k s)"
| "py_in k v = Inl (TypeError (''argument of type '' @ quoted (type_name v) @ '' is not iterable''))"

definition json_lookup :: "json \<Rightarrow> string \<Rightarrow> json option" where
  "json_lookup v k = (case v of JDict kvs \<Rightarrow> map_of kvs k | _ \<Rightarrow> None)"

section \<open>Inbound webhook payloads\<close>

definition mk_payload :: "json \<Rightarrow> json \<Rightarrow> json \<Rightarrow> json \<Rightarrow> json \<Rightarrow> json \<Rightarrow> json \<Rightarrow> json" where
  "mk_payload sender_name sender_id page_id message_type message attachments request =
     JDict [(''sender_name'', sender_name),
            (''sender_id'', sender_id),
            (''page_id'', page_id),
            (''message_type'', message_type),
            (''message'', message),
            (''attachments'', attachments),
            (''caption'', JStr ''''),
            (''data'', request),
            (''parent_message_id'', JStr '''')]"

text \<open>The body of the \<open>try\<close> block of \<open>parse_inbound_message\<close>.\<close>

definition parse_changes :: "json \<Rightarrow> json \<Rightarrow> json \<Rightarrow> py_exn + json" where
  "parse_changes request entry page_id =
     bnd (subscript_str entry ''changes'') (\<lambda>changes.
     bnd (subscript_0 changes) (\<lambda>change0.
     bnd (subscript_str change0 ''value'') (\<lambda>change.
     bnd (subscript_str change ''from'') (\<lambda>from1.
     bnd (subscript_str from1 ''id'') (\<lambda>sender_id.
     bnd (subscript_str change ''from'') (\<lambda>from2.
     bnd (subscript_str from2 ''name'') (\<lambda>sender_name.
     bnd (subscript_str change ''item'') (\<lambda>message_type.
     bnd (get_method change ''message'' JNull) (\<lambda>m.
     bnd (if truthy m then Inr m else get_method change ''reaction_type'' JNull) (\<lambda>message.
     Inr (mk_payload sender_name sender_id page_id message_type message (JList []) request)))))))))))"

definition parse_messaging :: "json \<Rightarrow> json \<Rightarrow> json \<Rightarrow> py_exn + json" where
  "parse_messaging request entry page_id =
     bnd (subscript_str entry ''messaging'') (\<lambda>ms.
     bnd (subscript_0 ms) (\<lambda>messaging.
     bnd (subscript_str messaging ''sender'') (\<lambda>sender.
     bnd (subscript_str sender ''id'') (\<lambda>sender_id.
     bnd (subscript_str messaging ''message'') (\<lambda>msg1.
     bnd (get_method msg1 ''text'' JNull) (\<lambda>message.
     bnd (subscript_str messaging ''message'') (\<lambda>msg2.
     bnd (get_method msg2 ''attachments'' (JList [])) (\<lambda>attachments.
     Inr (mk_payload (JStr '''') sender_id page_id (JStr ''message'') message attachments
            request)))))))))"

definition parse_inbound_body :: "json \<Rightarrow> py_exn + json" where
  "parse_inbound_body request =
     bnd (subscript_str request ''entry'') (\<lambda>entries.
     bnd (subscript_0 entries) (\<lambda>entry.
     bnd (subscript_str entry ''id'') (\<lambda>page_id.
     bnd (py_in ''changes'' entry) (\<lambda>has_changes.
       if has_changes then parse_changes request entry page_id
       else bnd (py_in ''messaging'' entry) (\<lambda>has_messaging.
         if has_messaging then parse_messaging request entry page_id
         else Inr (mk_payload (JStr '''') (JStr '''') page_id (JStr '''') (JStr '''') (JList [])
                     request))))))"

definition parse_inbound_message :: "json \<Rightarrow> json" where
  "parse_inbound_message request =
     (case parse_inbound_body request of
        Inr payload \<Rightarrow> payload
      | Inl e \<Rightarrow> JDict [(''ok'', JBool False), (''error'', JStr (str_exn e))])"


section \<open>Webhook verification\<close>

text \<open>The configuration of a client. The field \<open>fields\<close> of the source is
  \<open>subscription_fields\<close> here.\<close>

record client_config =
  api_url :: string
  app_secret :: string
  app_id :: string
  page_id :: string
  access_token :: string
  verify_token :: string
  subscription_fields :: "string option"
  timeout :: int

text \<open>The body of the \<open>try\<close> block of \<open>parse_verification_request\<close>. Comparing an object
  with a string by \<open>==\<close> is true exactly when the object is that string.\<close>

definition verification_body :: "client_config \<Rightarrow> json \<Rightarrow> py_exn + json" where
  "verification_body cfg request =
     bnd (get_method request ''hub.mode'' JNull) (\<lambda>hub_mode.
     bnd (get_method request ''hub.verify_token'' JNull) (\<lambda>hub_verify_token.
     bnd (get_method request ''hub.challenge'' JNull) (\<lambda>hub_challenge.
       if hub_verify_token = JStr (verify_token cfg) \<and> hub_mode = JStr ''subscribe''
       then Inr (if hub_challenge \<noteq> JNull then hub_challenge else JStr [])
       else Inr (JDict [(''message'', JStr ''Invalid token or mode''), (''code'', JInt 403)]))))"

definition parse_verification_request :: "client_config \<Rightarrow> json \<Rightarrow> json" where
  "parse_verification_request cfg request =
     (case verification_body cfg request of
        Inr v \<Rightarrow> v
      | Inl e \<Rightarrow> JDict [(''error'', JStr (str_exn e))])"

section \<open>The network\<close>

text \<open>
  A call of \<open>requests.request\<close>, \<open>requests.head\<close> or \<open>requests.get\<close> either raises or
  gives a response. The world holds the outcomes of the calls still to come, in order,
  the calls made so far, and the files stored so far. When no outcome is left the model
  has no answer (\<open>None\<close>).
\<close>

datatype http_outcome = Raises py_exn | Responds http_response

record net_call =
  call_method :: string
  call_url :: json
  call_params :: "(string \<times> json) list option"
  call_data :: "(string \<times> json) list option"
  call_json :: "json option"
  call_headers :: "(string \<times> string) list option"

record world =
  script :: "http_outcome list"
  sent :: "net_call list"
  saved :: "(string \<times> string) list"

definition net :: "net_call \<Rightarrow> world \<Rightarrow> (http_outcome \<times> world) option" where
  "net c w =
     (case script w of
        [] \<Rightarrow> None
      | out # rest \<Rightarrow> Some (out, w\<lparr>script := rest, sent := sent w @ [c]\<rparr>))"

definition upper_char :: "char \<Rightarrow> char" where
  "upper_char c = (let n = (of_char c :: nat) in if 97 \<le> n \<and> n \<le> 122 then char_of (n - 32) else c)"

definition upper :: "string \<Rightarrow> string" where
  "upper s = map upper_char s"

text \<open>What \<open>requests\<close> does with a response: a response is true when its status is not an
  error status; \<open>raise_for_status\<close> raises an \<open>HTTPError\<close>, which is a
  \<open>RequestException\<close> that carries the response; \<open>json()\<close> decodes the body or raises.\<close>

definition response_ok :: "http_response \<Rightarrow> bool" where
  "response_ok r = (\<not> (400 \<le> status_code r \<and> status_code r < 600))"

definition http_error_msg :: "http_response \<Rightarrow> string" where
  "http_error_msg r =
     str_int (status_code r)
     @ (if status_code r < 500 then '' Client Error: '' else '' Server Error: '')
     @ reason r @ '' for url: '' @ resp_url r"

definition raise_for_status :: "http_response \<Rightarrow> py_exn + unit" where
  "raise_for_status r =
     (if response_ok r then Inr () else Inl (RequestException (http_error_msg r) (Some r)))"

definition response_json :: "http_response \<Rightarrow> py_exn + json" where
  "response_json r =
     (case json_body r of
        Inl (RequestsDecodeError m) \<Rightarrow> Inl (RequestsJSONDecodeError m)
      | Inl (PlainValueError m) \<Rightarrow> Inl (ValueError m)
      | Inr v \<Rightarrow> Inr v)"

fun is_timeout :: "py_exn \<Rightarrow> bool" where
  "is_timeout (Timeout m) = True"
| "is_timeout e = False"

fun is_request_exception :: "py_exn \<Rightarrow> bool" where
  "is_request_exception (Timeout m) = True"
| "is_request_exception (RequestException m r) = True"
| "is_request_exception (RequestsJSONDecodeError m) = True"
| "is_request_exception e = False"

fun exn_response :: "py_exn \<Rightarrow> http_response option" where
  "exn_response (RequestException m r) = r"
| "exn_response e = None"

section \<open>\<open>send_rest_request\<close>\<close>

record rest_args =
  req_method :: string
  req_endpoint :: string
  req_params :: "(string \<times> json) list option"
  req_data :: "(string \<times> json) list option"
  req_headers :: "(string \<times> string) list option"
  req_json :: "json option"

definition rest :: "string \<Rightarrow> string \<Rightarrow> rest_args" where
  "rest m e = \<lparr>req_method = m, req_endpoint = e, req_params = None, req_data = None,
     req_headers = None, req_json = None\<rparr>"

definition build_url :: "client_config \<Rightarrow> string \<Rightarrow> string" where
  "build_url cfg endpoint =
     (if starts_with endpoint ''http://'' \<or> starts_with endpoint ''https://'' then endpoint
      else api_url cfg @ endpoint)"

text \<open>The \<open>try\<close> block, given what \<open>requests.request\<close> did.\<close>

definition rest_try :: "http_outcome \<Rightarrow> py_exn + json" where
  "rest_try out =
     (case out of
        Raises e \<Rightarrow> Inl e
      | Responds response \<Rightarrow>
          bnd (raise_for_status response) (\<lambda>_.
            if content response \<noteq> [] then response_json response else Inr (JDict [])))"

text \<open>The three handlers. The second one calls \<open>e.response.json()\<close> when
  \<open>e.response and e.response.content\<close> is true; an exception of that call is raised
  inside the handler and leaves the function.\<close>

definition rest_except :: "client_config \<Rightarrow> py_exn \<Rightarrow> py_exn + json" where
  "rest_except cfg e =
     (if is_timeout e then
        Inr (JDict [(''error'', JStr (''Timeout after '' @ str_int (timeout cfg) @ '' seconds''))])
      else if is_request_exception e then
        bnd (case exn_response e of
               None \<Rightarrow> Inr JNull
             | Some r \<Rightarrow> if response_ok r \<and> content r \<noteq> [] then response_json r else Inr JNull)
          (\<lambda>error_details.
             Inr (JDict [(''error'', JStr (str_exn e)), (''details'', error_details)]))
      else Inr (JDict [(''error'', JStr (str_exn e))]))"

definition rest_result :: "client_config \<Rightarrow> http_outcome \<Rightarrow> py_exn + json" where
  "rest_result cfg out = (case rest_try out of Inr v \<Rightarrow> Inr v | Inl e \<Rightarrow> rest_except cfg e)"

definition rest_call :: "client_config \<Rightarrow> rest_args \<Rightarrow> net_call" where
  "rest_call cfg a =
     \<lparr>call_method = upper (req_method a), call_url = JStr (build_url cfg (req_endpoint a)),
      call_params = req_params a, call_data = req_data a, call_json = req_json a,
      call_headers = req_headers a\<rparr>"

definition send_rest_request ::
  "client_config \<Rightarrow> rest_args \<Rightarrow> world \<Rightarrow> ((py_exn + json) \<times> world) option" where
  "send_rest_request cfg a w =
     (case net (rest_call cfg a) w of
        None \<Rightarrow> None
      | Some (out, w') \<Rightarrow> Some (rest_result cfg out, w'))"


section \<open>Operations that send one request\<close>

definition opt_str :: "string option \<Rightarrow> json" where
  "opt_str x = (case x of None \<Rightarrow> JNull | Some s \<Rightarrow> JStr s)"

definition json_headers :: "(string \<times> string) list" where
  "json_headers = [(''Content-Type'', ''application/json'')]"

definition register_session_args :: "client_config \<Rightarrow> string \<Rightarrow> rest_args" where
  "register_session_args cfg webhook_url =
     (rest ''POST'' (app_id cfg @ ''/subscriptions''))
       \<lparr>req_params := Some [(''access_token'', JStr (app_id cfg @ ''|'' @ app_secret cfg))],
        req_json := Some (JDict [(''object'', JStr ''page''),
                                 (''callback_url'', JStr webhook_url),
                                 (''fields'', opt_str (subscription_fields cfg)),
                                 (''verify_token'', JStr (verify_token cfg)),
                                 (''include_values'', JStr ''true'')])\<rparr>"

definition register_session ::
  "client_config \<Rightarrow> string \<Rightarrow> world \<Rightarrow> ((py_exn + json) \<times> world) option" where
  "register_session cfg webhook_url = send_rest_request cfg (register_session_args cfg webhook_url)"

definition send_text_message_args :: "client_config \<Rightarrow> string \<Rightarrow> string \<Rightarrow> rest_args" where
  "send_text_message_args cfg recipient_id message =
     (rest ''POST'' (page_id cfg @ ''/messages''))
       \<lparr>req_headers := Some json_headers,
        req_json := Some (JDict [(''recipient'', JDict [(''id'', JStr recipient_id)]),
                                 (''messaging_type'', JStr ''RESPONSE''),
                                 (''message'', JDict [(''text'', JStr message)])]),
        req_params := Some [(''access_token'', JStr (access_token cfg))]\<rparr>"

definition send_text_message ::
  "client_config \<Rightarrow> string \<Rightarrow> string \<Rightarrow> world \<Rightarrow> ((py_exn + json) \<times> world) option" where
  "send_text_message cfg recipient_id message =
     send_rest_request cfg (send_text_message_args cfg recipient_id message)"

definition send_media_args :: "client_config \<Rightarrow> string \<Rightarrow> string \<Rightarrow> string \<Rightarrow> rest_args" where
  "send_media_args cfg recipient_id media_url media_type =
     (rest ''POST'' (page_id cfg @ ''/messages''))
       \<lparr>req_headers := Some json_headers,
        req_json := Some (JDict [(''recipient'', JDict [(''id'', JStr recipient_id)]),
                                 (''messaging_type'', JStr ''RESPONSE''),
                                 (''message'', JDict [(''attachment'',
                                    JDict [(''type'', JStr media_type),
                                           (''payload'', JDict [(''url'', JStr media_url),
                                                                (''is_reusable'', JBool True)])])])]),
        req_params := Some [(''access_token'', JStr (access_token cfg))]\<rparr>"

definition send_media ::
  "client_config \<Rightarrow> string \<Rightarrow> string \<Rightarrow> string \<Rightarrow> world \<Rightarrow> ((py_exn + json) \<times> world) option" where
  "send_media cfg recipient_id media_url media_type =
     send_rest_request cfg (send_media_args cfg recipient_id media_url media_type)"

definition get_user_info_args :: "client_config \<Rightarrow> string \<Rightarrow> rest_args" where
  "get_user_info_args cfg flds =
     (rest ''GET'' ''me'')
       \<lparr>req_params := Some [(''fields'', JStr flds), (''access_token'', JStr (access_token cfg))]\<rparr>"

definition get_user_info ::
  "client_config \<Rightarrow> string \<Rightarrow> world \<Rightarrow> ((py_exn + json) \<times> world) option" where
  "get_user_info cfg flds = send_rest_request cfg (get_user_info_args cfg flds)"

definition get_page_details_args :: "client_config \<Rightarrow> string \<Rightarrow> rest_args" where
  "get_page_details_args cfg flds =
     (rest ''GET'' (page_id cfg))
       \<lparr>req_params := Some [(''fields'', JStr flds), (''access_token'', JStr (access_token cfg))]\<rparr>"

definition get_page_details ::
  "client_config \<Rightarrow> string \<Rightarrow> world \<Rightarrow> ((py_exn + json) \<times> world) option" where
  "get_page_details cfg flds = send_rest_request cfg (get_page_details_args cfg flds)"

definition post_message_to_page_args :: "client_config \<Rightarrow> string \<Rightarrow> rest_args" where
  "post_message_to_page_args cfg message =
     (rest ''POST'' (page_id cfg @ ''/feed''))
       \<lparr>req_headers := Some json_headers,
        req_json := Some (JDict [(''message'', JStr message)]),
        req_params := Some [(''access_token'', JStr (access_token cfg))]\<rparr>"

definition post_message_to_page ::
  "client_config \<Rightarrow> string \<Rightarrow> world \<Rightarrow> ((py_exn + json) \<times> world) option" where
  "post_message_to_page cfg message = send_rest_request cfg (post_message_to_page_args cfg message)"

definition get_page_posts_args :: "client_config \<Rightarrow> int \<Rightarrow> rest_args" where
  "get_page_posts_args cfg limit =
     (rest ''GET'' (page_id cfg @ ''/posts''))
       \<lparr>req_params := Some [(''access_token'', JStr (access_token cfg)), (''limit'', JInt limit)]\<rparr>"

definition get_page_posts ::
  "client_config \<Rightarrow> int \<Rightarrow> world \<Rightarrow> ((py_exn + json) \<times> world) option" where
  "get_page_posts cfg limit = send_rest_request cfg (get_page_posts_args cfg limit)"

definition get_single_post_args :: "client_config \<Rightarrow> string \<Rightarrow> rest_args" where
  "get_single_post_args cfg post_id =
     (rest ''GET'' post_id)\<lparr>req_params := Some [(''access_token'', JStr (access_token cfg))]\<rparr>"

definition get_single_post ::
  "client_config \<Rightarrow> string \<Rightarrow> world \<Rightarrow> ((py_exn + json) \<times> world) option" where
  "get_single_post cfg post_id = send_rest_request cfg (get_single_post_args cfg post_id)"

definition comment_on_post_args :: "client_config \<Rightarrow> string \<Rightarrow> string \<Rightarrow> rest_args" where
  "comment_on_post_args cfg post_id message =
     (rest ''POST'' (post_id @ ''/comments''))
       \<lparr>req_params := Some [(''message'', JStr message), (''access_token'', JStr (access_token cfg))]\<rparr>"

definition comment_on_post ::
  "client_config \<Rightarrow> string \<Rightarrow> string \<Rightarrow> world \<Rightarrow> ((py_exn + json) \<times> world) option" where
  "comment_on_post cfg post_id message = send_rest_request cfg (comment_on_post_args cfg post_id message)"

definition get_post_comments_args :: "client_config \<Rightarrow> string \<Rightarrow> int \<Rightarrow> rest_args" where
  "get_post_comments_args cfg post_id limit =
     (rest ''GET'' (post_id @ ''/comments''))
       \<lparr>req_params := Some [(''access_token'', JStr (access_token cfg)), (''limit'', JInt limit)]\<rparr>"

definition get_post_comments ::
  "client_config \<Rightarrow> string \<Rightarrow> int \<Rightarrow> world \<Rightarrow> ((py_exn + json) \<times> world) option" where
  "get_post_comments cfg post_id limit = send_rest_request cfg (get_post_comments_args cfg post_id limit)"

definition reply_to_comment_args :: "client_config \<Rightarrow> string \<Rightarrow> string \<Rightarrow> rest_args" where
  "reply_to_comment_args cfg comment_id message =
     (rest ''POST'' (comment_id @ ''/comments''))
       \<lparr>req_params := Some [(''message'', JStr message), (''access_token'', JStr (access_token cfg))]\<rparr>"

definition reply_to_comment ::
  "client_config \<Rightarrow> string \<Rightarrow> string \<Rightarrow> world \<Rightarrow> ((py_exn + json) \<times> world) option" where
  "reply_to_comment cfg comment_id message =
     send_rest_request cfg (reply_to_comment_args cfg comment_id message)"

definition reply_to_comment_with_attachment_args ::
  "client_config \<Rightarrow> string \<Rightarrow> string \<Rightarrow> rest_args" where
  "reply_to_comment_with_attachment_args cfg comment_id attachment_url =
     (rest ''POST'' (comment_id @ ''/comments''))
       \<lparr>req_data := Some [(''attachment_url'', JStr attachment_url),
                          (''access_token'', JStr (access_token cfg))]\<rparr>"

definition reply_to_comment_with_attachment ::
  "client_config \<Rightarrow> string \<Rightarrow> string \<Rightarrow> world \<Rightarrow> ((py_exn + json) \<times> world) option" where
  "reply_to_comment_with_attachment cfg comment_id attachment_url =
     send_rest_request cfg (reply_to_comment_with_attachment_args cfg comment_id attachment_url)"

definition update_comment_args :: "client_config \<Rightarrow> string \<Rightarrow> string \<Rightarrow> rest_args" where
  "update_comment_args cfg comment_id message =
     (rest ''POST'' comment_id)
       \<lparr>req_data := Some [(''message'', JStr message), (''access_token'', JStr (access_token cfg))]\<rparr>"

definition update_comment ::
  "client_config \<Rightarrow> string \<Rightarrow> string \<Rightarrow> world \<Rightarrow> ((py_exn + json) \<times> world) option" where
  "update_comment cfg comment_id message = send_rest_request cfg (update_comment_args cfg comment_id message)"

definition like_comment_args :: "client_config \<Rightarrow> string \<Rightarrow> rest_args" where
  "like_comment_args cfg comment_id =
     (rest ''POST'' (comment_id @ ''/likes''))
       \<lparr>req_params := Some [(''access_token'', JStr (access_token cfg))]\<rparr>"

definition like_comment ::
  "client_config \<Rightarrow> string \<Rightarrow> world \<Rightarrow> ((py_exn + json) \<times> world) option" where
  "like_comment cfg comment_id = send_rest_request cfg (like_comment_args cfg comment_id)"

definition get_reactions_args :: "client_config \<Rightarrow> string \<Rightarrow> rest_args" where
  "get_reactions_args cfg post_id =
     (rest ''GET'' (post_id @ ''/reactions''))
       \<lparr>req_params := Some [(''access_token'', JStr (access_token cfg))]\<rparr>"

definition get_reactions ::
  "client_config \<Rightarrow> string \<Rightarrow> world \<Rightarrow> ((py_exn + json) \<times> world) option" where
  "get_reactions cfg post_id = send_rest_request cfg (get_reactions_args cfg post_id)"

definition share_facebook_post_args :: "client_config \<Rightarrow> string \<Rightarrow> rest_args" where
  "share_facebook_post_args cfg post_id =
     (rest ''GET'' post_id)
       \<lparr>req_params := Some [(''fields'', JStr ''permalink_url''),
                            (''access_token'', JStr (access_token cfg))]\<rparr>"

definition share_facebook_post ::
  "client_config \<Rightarrow> string \<Rightarrow> world \<Rightarrow> ((py_exn + json) \<times> world) option" where
  "share_facebook_post cfg post_id w =
     (case send_rest_request cfg (share_facebook_post_args cfg post_id) w of
        None \<Rightarrow> None
      | Some (Inl e, w') \<Rightarrow> Some (Inl e, w')
      | Some (Inr response, w') \<Rightarrow>
          Some (bnd (py_in ''permalink_url'' response) (\<lambda>has_link.
                  if has_link then
                    bnd (subscript_str response ''permalink_url'') (\<lambda>link.
                      Inr (JDict [(''status'', JStr ''success''), (''data'', link)]))
                  else
                    bnd (get_method response ''error'' (JStr ''Unknown error'')) (\<lambda>msg.
                      Inr (JDict [(''status'', JStr ''error''), (''message'', msg)]))), w'))"


section \<open>\<open>list_all_pages\<close>\<close>

definition envelope :: "py_exn \<Rightarrow> json" where
  "envelope e = JDict [(''ok'', JBool False), (''error'', JStr (str_exn e))]"

text \<open>The elements that \<open>list.extend\<close> takes from an object: those of a list, the
  characters of a string, the keys of a dictionary; any other object is not iterable.\<close>

fun iterate :: "json \<Rightarrow> py_exn + json list" where
  "iterate (JList xs) = Inr xs"
| "iterate (JStr s) = Inr (map (\<lambda>c. JStr [c]) s)"
| "iterate (JDict kvs) = Inr (map JStr (remdups (map fst kvs)))"
| "iterate v = Inl (TypeError (quoted (type_name v) @ '' object is not iterable''))"

text \<open>One round of the loop after its request: \<open>Return\<close> leaves the function,
  \<open>Break\<close> leaves the loop, \<open>Continue\<close> goes on with the next endpoint.\<close>

datatype page_step = Return json | Break "json list" | Continue "json list" json

definition pages_step :: "json \<Rightarrow> json list \<Rightarrow> py_exn + page_step" where
  "pages_step response all_pages =
     bnd (py_in ''error'' response) (\<lambda>has_error.
       if has_error then Inr (Return (JList []))
       else
         bnd (get_method response ''data'' (JList [])) (\<lambda>data.
         bnd (iterate data) (\<lambda>items.
         bnd (get_method response ''paging'' (JDict [])) (\<lambda>paging.
         bnd (get_method paging ''next'' JNull) (\<lambda>next_page.
           if \<not> truthy next_page then Inr (Break (all_pages @ items))
           else Inr (Continue (all_pages @ items) next_page))))))"

definition pages_args :: "string \<Rightarrow> (string \<times> json) list \<Rightarrow> rest_args" where
  "pages_args endpoint params = (rest ''GET'' endpoint)\<lparr>req_params := Some params\<rparr>"

text \<open>The \<open>while True\<close> loop. The next endpoint is whatever the response gave; an
  endpoint that is not a string has no \<open>startswith\<close>, and \<open>send_rest_request\<close> raises
  before its \<open>try\<close>.\<close>

function pages_loop ::
  "client_config \<Rightarrow> string \<Rightarrow> (string \<times> json) list \<Rightarrow> json list \<Rightarrow> world
     \<Rightarrow> ((py_exn + json) \<times> world) option" where
  "pages_loop cfg endpoint params all_pages w =
     (case send_rest_request cfg (pages_args endpoint params) w of
        None \<Rightarrow> None
      | Some (res, w') \<Rightarrow>
          (case res of
             Inl e \<Rightarrow> Some (Inl e, w')
           | Inr response \<Rightarrow>
               (case pages_step response all_pages of
                  Inl e \<Rightarrow> Some (Inl e, w')
                | Inr (Return v) \<Rightarrow> Some (Inr v, w')
                | Inr (Break pages) \<Rightarrow> Some (Inr (JList pages), w')
                | Inr (Continue pages next_page) \<Rightarrow>
                    (case next_page of
                       JStr s \<Rightarrow> pages_loop cfg s [] pages w'
                     | _ \<Rightarrow> Some (Inl (AttributeError
                              (quoted (type_name next_page) @ '' object has no attribute ''
                               @ quoted ''startswith'')), w')))))"
  by pat_completeness auto
termination
  by (relation "measure (\<lambda>(cfg, endpoint, params, all_pages, w). length (script w))")
     (auto simp: send_rest_request_def net_def split: list.splits option.splits)

definition list_all_pages :: "client_config \<Rightarrow> int \<Rightarrow> world \<Rightarrow> (json \<times> world) option" where
  "list_all_pages cfg limit w =
     (case pages_loop cfg ''me/accounts''
             [(''access_token'', JStr (access_token cfg)), (''limit'', JInt limit)] [] w of
        None \<Rightarrow> None
      | Some (Inl e, w') \<Rightarrow> Some (envelope e, w')
      | Some (Inr v, w') \<Rightarrow> Some (v, w'))"

section \<open>Posting images and videos\<close>

definition photo_args :: "client_config \<Rightarrow> json \<Rightarrow> rest_args" where
  "photo_args cfg image_url =
     (rest ''POST'' (page_id cfg @ ''/photos''))
       \<lparr>req_params := Some [(''access_token'', JStr (access_token cfg)),
                            (''url'', image_url),
                            (''published'', JStr ''false'')]\<rparr>"

definition video_args :: "client_config \<Rightarrow> string \<Rightarrow> string \<Rightarrow> rest_args" where
  "video_args cfg title video_url =
     (rest ''POST'' (page_id cfg @ ''/videos''))
       \<lparr>req_params := Some [(''access_token'', JStr (access_token cfg)),
                            (''title'', JStr title),
                            (''file_url'', JStr video_url)]\<rparr>"

definition feed_args :: "client_config \<Rightarrow> string \<Rightarrow> json list \<Rightarrow> rest_args" where
  "feed_args cfg caption ids =
     (rest ''POST'' (page_id cfg @ ''/feed''))
       \<lparr>req_params := Some [(''access_token'', JStr (access_token cfg))],
        req_json := Some (JDict [(''message'', JStr caption),
                                 (''attached_media'',
                                  JList (map (\<lambda>i. JDict [(''media_fbid'', i)]) ids))])\<rparr>"

text \<open>\<open>if "error" not in response: ids.append(response.get("id"))\<close>\<close>

definition collect_id :: "json \<Rightarrow> json list \<Rightarrow> py_exn + json list" where
  "collect_id response ids =
     bnd (py_in ''error'' response) (\<lambda>has_error.
       if \<not> has_error then bnd (get_method response ''id'' JNull) (\<lambda>i. Inr (ids @ [i]))
       else Inr ids)"

text \<open>The iterations of \<open>post_images_to_page\<close> and \<open>post_videos_to_page\<close> differ only in the
  request that they build for a URL; \<open>upload_loop\<close> is that iteration over the requests built,
  with the identifiers collected so far.\<close>

fun upload_loop ::
  "client_config \<Rightarrow> rest_args list \<Rightarrow> json list \<Rightarrow> world
     \<Rightarrow> ((py_exn + json list) \<times> world) option" where
  "upload_loop cfg [] ids w = Some (Inr ids, w)"
| "upload_loop cfg (a # as) ids w =
     (case send_rest_request cfg a w of
        None \<Rightarrow> None
      | Some (Inl e, w') \<Rightarrow> Some (Inl e, w')
      | Some (Inr response, w') \<Rightarrow>
          (case collect_id response ids of
             Inl e \<Rightarrow> Some (Inl e, w')
           | Inr ids' \<Rightarrow> upload_loop cfg as ids' w'))"

text \<open>What follows the loop in \<open>post_images_to_page\<close>, \<open>post_videos_to_page\<close> and
  \<open>post_media_to_page\<close>, with the handler of their \<open>try\<close>: an exception of the loop or
  of the feed post gives the envelope; no identifier gives the error of the operation
  and no feed post.\<close>

definition post_feed ::
  "client_config \<Rightarrow> string \<Rightarrow> string \<Rightarrow> ((py_exn + json list) \<times> world) option
     \<Rightarrow> (json \<times> world) option" where
  "post_feed cfg none_msg caption looped =
     (case looped of
        None \<Rightarrow> None
      | Some (Inl e, w') \<Rightarrow> Some (envelope e, w')
      | Some (Inr ids, w') \<Rightarrow>
          if ids = [] then Some (JDict [(''error'', JStr none_msg)], w')
          else (case send_rest_request cfg (feed_args cfg caption ids) w' of
                  None \<Rightarrow> None
                | Some (Inl e, w'') \<Rightarrow> Some (envelope e, w'')
                | Some (Inr v, w'') \<Rightarrow> Some (v, w'')))"

definition post_images_to_page ::
  "client_config \<Rightarrow> string list \<Rightarrow> string \<Rightarrow> world \<Rightarrow> (json \<times> world) option" where
  "post_images_to_page cfg image_urls caption w =
     post_feed cfg ''Failed to upload any images'' caption
       (upload_loop cfg (map (\<lambda>u. photo_args cfg (JStr u)) image_urls) [] w)"

definition post_videos_to_page ::
  "client_config \<Rightarrow> string \<Rightarrow> string \<Rightarrow> string list \<Rightarrow> world \<Rightarrow> (json \<times> world) option" where
  "post_videos_to_page cfg title caption video_urls w =
     post_feed cfg ''Failed to upload any videos'' caption
       (upload_loop cfg (map (video_args cfg title) video_urls) [] w)"


section \<open>MIME classification\<close>

text \<open>
  What the client takes from its host: the two functions of \<open>mimetypes\<close>, the ten random
  characters of a file name, and the storage interface, whose two operations may raise.
  \<open>mimetypes.guess_type\<close> raises on a path that it cannot parse as a URL.
\<close>

record host_env =
  guess_type :: "string \<Rightarrow> py_exn + string option"
  guess_extension :: "string \<Rightarrow> string option"
  random_name :: string
  save_file_raises :: "string \<Rightarrow> string \<Rightarrow> py_exn option"
  get_file_url :: "string \<Rightarrow> py_exn + json"

definition image_types :: "string list" where
  "image_types = [''image/jpeg'', ''image/png'', ''image/gif'', ''image/webp'']"

definition document_types :: "string list" where
  "document_types = [''application/pdf'', ''text/plain'']"

definition audio_types :: "string list" where
  "audio_types = [''audio/mpeg'', ''audio/wav'']"

definition video_types :: "string list" where
  "video_types = [''video/mp4'', ''video/quicktime'']"

definition classify :: "json \<Rightarrow> json" where
  "classify detected_mime_type =
     (if detected_mime_type \<in> set (map JStr image_types) then
        JDict [(''file_type'', JStr ''image''), (''mime'', detected_mime_type)]
      else if detected_mime_type \<in> set (map JStr document_types) then
        JDict [(''file_type'', JStr ''document''), (''mime'', detected_mime_type)]
      else if detected_mime_type \<in> set (map JStr audio_types) then
        JDict [(''file_type'', JStr ''audio''), (''mime'', detected_mime_type)]
      else if detected_mime_type \<in> set (map JStr video_types) then
        JDict [(''file_type'', JStr ''video''), (''mime'', detected_mime_type)]
      else JDict [(''file_type'', JStr ''unknown''), (''mime'', detected_mime_type)])"

definition head_call :: "json \<Rightarrow> net_call" where
  "head_call url = \<lparr>call_method = ''HEAD'', call_url = url, call_params = None, call_data = None,
     call_json = None, call_headers = None\<rparr>"

definition get_call :: "json \<Rightarrow> net_call" where
  "get_call url = \<lparr>call_method = ''GET'', call_url = url, call_params = None, call_data = None,
     call_json = None, call_headers = None\<rparr>"

text \<open>\<open>get_mime_type(file_path, url, mime_type)\<close>. The result \<open>JNull\<close> is Python's
  \<open>None\<close>. The call of \<open>guess_type\<close> is in no \<open>try\<close>; of the exceptions of the probe
  only those of the \<open>RequestException\<close> family are caught.\<close>

definition get_mime_type ::
  "host_env \<Rightarrow> string option \<Rightarrow> json \<Rightarrow> json \<Rightarrow> world \<Rightarrow> ((py_exn + json) \<times> world) option" where
  "get_mime_type env file_path url mime_type w =
     (if file_path \<noteq> None \<and> file_path \<noteq> Some [] then
        (case guess_type env (the file_path) of
           Inl e \<Rightarrow> Some (Inl e, w)
         | Inr guessed \<Rightarrow> Some (Inr (classify (opt_str guessed)), w))
      else if truthy url then
        (case net (head_call url) w of
           None \<Rightarrow> None
         | Some (Raises e, w') \<Rightarrow>
             if is_request_exception e then Some (Inr JNull, w') else Some (Inl e, w')
         | Some (Responds response, w') \<Rightarrow>
             Some (Inr (classify (opt_str (content_type response))), w'))
      else Some (Inr (classify mime_type), w))"

section \<open>\<open>post_media_to_page\<close>\<close>

definition media_video_args :: "client_config \<Rightarrow> json \<Rightarrow> rest_args" where
  "media_video_args cfg media_url =
     (rest ''POST'' (page_id cfg @ ''/videos''))
       \<lparr>req_params := Some [(''access_token'', JStr (access_token cfg)),
                            (''file_url'', media_url)]\<rparr>"

text \<open>\<open>mime_info.get("file_type") if mime_info else None\<close>\<close>

definition media_type_of :: "json \<Rightarrow> py_exn + json" where
  "media_type_of mime_info =
     (if truthy mime_info then get_method mime_info ''file_type'' JNull else Inr JNull)"

fun media_loop ::
  "client_config \<Rightarrow> host_env \<Rightarrow> json list \<Rightarrow> json list \<Rightarrow> world
     \<Rightarrow> ((py_exn + json list) \<times> world) option" where
  "media_loop cfg env [] media_ids w = Some (Inr media_ids, w)"
| "media_loop cfg env (media # rest_media) media_ids w =
     (case get_method media ''url'' JNull of
        Inl e \<Rightarrow> Some (Inl e, w)
      | Inr media_url \<Rightarrow>
          (case get_mime_type env None media_url JNull w of
             None \<Rightarrow> None
           | Some (Inl e, w1) \<Rightarrow> Some (Inl e, w1)
           | Some (Inr mime_info, w1) \<Rightarrow>
               (case media_type_of mime_info of
                  Inl e \<Rightarrow> Some (Inl e, w1)
                | Inr media_type \<Rightarrow>
                    if media_type = JStr ''video'' \<or> media_type = JStr ''image'' then
                      (case send_rest_request cfg
                              (if media_type = JStr ''video'' then media_video_args cfg media_url
                               else photo_args cfg media_url) w1 of
                         None \<Rightarrow> None
                       | Some (Inl e, w2) \<Rightarrow> Some (Inl e, w2)
                       | Some (Inr response, w2) \<Rightarrow>
                           (case collect_id response media_ids of
                              Inl e \<Rightarrow> Some (Inl e, w2)
                            | Inr ids' \<Rightarrow> media_loop cfg env rest_media ids' w2))
                    else media_loop cfg env rest_media media_ids w1)))"

definition post_media_to_page ::
  "client_config \<Rightarrow> host_env \<Rightarrow> string \<Rightarrow> json list \<Rightarrow> world \<Rightarrow> (json \<times> world) option" where
  "post_media_to_page cfg env caption media_urls w =
     post_feed cfg ''No valid media uploaded'' caption (media_loop cfg env media_urls [] w)"

section \<open>\<open>download_file\<close>\<close>

text \<open>The body of the \<open>try\<close> block. The chunks of the body are joined as they come, so
  the bytes stored are the content of the response; \<open>stream_error\<close> is the message of an
  exception that reading the chunks raises.\<close>

definition download_body ::
  "host_env \<Rightarrow> string \<Rightarrow> world \<Rightarrow> ((py_exn + json) \<times> world) option" where
  "download_body env url w =
     (case net (head_call (JStr url)) w of
        None \<Rightarrow> None
      | Some (Raises e, w1) \<Rightarrow> Some (Inl e, w1)
      | Some (Responds response, w1) \<Rightarrow>
          (let ctype = (case content_type response of None \<Rightarrow> [] | Some s \<Rightarrow> s);
               extension = guess_extension env (takeWhile (\<lambda>c. c \<noteq> CHR 0x3B) ctype)
           in if extension = None \<or> extension = Some [] then Some (Inr JNull, w1)
              else
                (let output_path = ''fb/'' @ random_name env @ the extension
                 in case net (get_call (JStr url)) w1 of
                      None \<Rightarrow> None
                    | Some (Raises e, w2) \<Rightarrow> Some (Inl e, w2)
                    | Some (Responds body, w2) \<Rightarrow>
                        if status_code body = 200 then
                          (case stream_error body of
                             Some m \<Rightarrow> Some (Inl (RequestException m None), w2)
                           | None \<Rightarrow>
                               (case save_file_raises env output_path (content body) of
                                  Some e \<Rightarrow> Some (Inl e, w2)
                                | None \<Rightarrow>
                                    Some (get_file_url env output_path,
                                          w2\<lparr>saved := saved w2 @ [(output_path, content body)]\<rparr>)))
                        else Some (Inr JNull, w2))))"

definition download_file :: "host_env \<Rightarrow> string \<Rightarrow> world \<Rightarrow> (json \<times> world) option" where
  "download_file env url w =
     (case download_body env url w of
        None \<Rightarrow> None
      | Some (Inl e, w') \<Rightarrow> Some (JNull, w')
      | Some (Inr v, w') \<Rightarrow> Some (v, w'))"

section \<open>Notions used in the statements\<close>

subsection \<open>Values\<close>

text \<open>\<open>a or b\<close>, and \<open>d.get(k, default)\<close> on the entries of a dictionary.\<close>

definition py_or :: "json \<Rightarrow> json \<Rightarrow> json" where
  "py_or a b = (if truthy a then a else b)"

definition dict_get :: "(string \<times> json) list \<Rightarrow> string \<Rightarrow> json \<Rightarrow> json" where
  "dict_get kvs k d = (case map_of kvs k of None \<Rightarrow> d | Some v \<Rightarrow> v)"

subsection \<open>The handshake\<close>

text \<open>The rejection of a handshake, the challenge that a request carries (the empty
  string when there is none), and the test that the handshake passes.\<close>

definition rejection :: json where
  "rejection = JDict [(''message'', JStr ''Invalid token or mode''), (''code'', JInt 403)]"

definition challenge_of :: "(string \<times> json) list \<Rightarrow> json" where
  "challenge_of r =
     (if dict_get r ''hub.challenge'' JNull = JNull then JStr []
      else dict_get r ''hub.challenge'' JNull)"

definition handshake_ok :: "client_config \<Rightarrow> (string \<times> json) list \<Rightarrow> bool" where
  "handshake_ok cfg r =
     (map_of r ''hub.mode'' = Some (JStr ''subscribe'')
      \<and> map_of r ''hub.verify_token'' = Some (JStr (verify_token cfg)))"

subsection \<open>Worlds and calls\<close>

text \<open>A world in which nothing has been sent or stored, the world after one more call,
  and the calls that were made between two worlds.\<close>

definition start :: "http_outcome list \<Rightarrow> world" where
  "start outs = \<lparr>script = outs, sent = [], saved = []\<rparr>"

definition after_call :: "world \<Rightarrow> net_call \<Rightarrow> world" where
  "after_call w c = w\<lparr>script := tl (script w), sent := sent w @ [c]\<rparr>"

definition new_calls :: "world \<Rightarrow> world \<Rightarrow> net_call list" where
  "new_calls w w' = drop (length (sent w)) (sent w')"

text \<open>\<open>grows P w w'\<close>: the calls of \<open>w\<close> are still the first calls of \<open>w'\<close>, and every
  call made since satisfies \<open>P\<close>.\<close>

definition grows :: "(net_call \<Rightarrow> bool) \<Rightarrow> world \<Rightarrow> world \<Rightarrow> bool" where
  "grows P w w' = (length (sent w) \<le> length (sent w') \<and> take (length (sent w)) (sent w') = sent w
     \<and> list_all P (new_calls w w'))"

subsection \<open>Responses\<close>

text \<open>What \<open>send_rest_request\<close> makes of an outcome: a dictionary; a response that
  contains \<open>error\<close>; a page with the given items and \<open>paging.next\<close> (\<open>JNull\<close> when there
  is none); a page that links to a further one.\<close>

definition is_dict_result :: "client_config \<Rightarrow> http_outcome \<Rightarrow> bool" where
  "is_dict_result cfg out = (case rest_result cfg out of Inr (JDict d) \<Rightarrow> True | _ \<Rightarrow> False)"

definition is_error_response :: "client_config \<Rightarrow> http_outcome \<Rightarrow> bool" where
  "is_error_response cfg out =
     (case rest_result cfg out of Inr v \<Rightarrow> py_in ''error'' v = Inr True | Inl e \<Rightarrow> False)"

definition is_page :: "client_config \<Rightarrow> http_outcome \<Rightarrow> json list \<Rightarrow> json \<Rightarrow> bool" where
  "is_page cfg out items nxt =
     (case rest_result cfg out of
        Inr (JDict d) \<Rightarrow>
          map_of d ''error'' = None \<and> dict_get d ''data'' (JList []) = JList items
          \<and> (case dict_get d ''paging'' (JDict []) of
                JDict p \<Rightarrow> dict_get p ''next'' JNull = nxt
              | _ \<Rightarrow> False)
      | _ \<Rightarrow> False)"

definition linked :: "client_config \<Rightarrow> http_outcome \<Rightarrow> json list \<times> string \<Rightarrow> bool" where
  "linked cfg out p = (is_page cfg out (fst p) (JStr (snd p)) \<and> snd p \<noteq> [])"

text \<open>The calls of \<open>list_all_pages\<close> for a chain of linked pages, and its first
  parameters.\<close>

fun follow_calls ::
  "client_config \<Rightarrow> string \<Rightarrow> (string \<times> json) list \<Rightarrow> (json list \<times> string) list \<Rightarrow> net_call list" where
  "follow_calls cfg endpoint params [] = [rest_call cfg (pages_args endpoint params)]"
| "follow_calls cfg endpoint params (p # ps) =
     rest_call cfg (pages_args endpoint params) # follow_calls cfg (snd p) [] ps"

definition first_params :: "client_config \<Rightarrow> int \<Rightarrow> (string \<times> json) list" where
  "first_params cfg limit = [(''access_token'', JStr (access_token cfg)), (''limit'', JInt limit)]"

text \<open>The identifier that an upload contributes (none when its response has an \<open>error\<close>
  key), the value that the caller gets from the feed post, and the upload calls for a list
  of image URLs.\<close>

definition upload_id :: "client_config \<Rightarrow> http_outcome \<Rightarrow> json option" where
  "upload_id cfg out =
     (case rest_result cfg out of
        Inr (JDict d) \<Rightarrow> if map_of d ''error'' = None then Some (dict_get d ''id'' JNull) else None
      | _ \<Rightarrow> None)"

definition feed_result :: "client_config \<Rightarrow> http_outcome \<Rightarrow> json" where
  "feed_result cfg out =
     (case rest_result cfg out of
        Inl e \<Rightarrow> JDict [(''ok'', JBool False), (''error'', JStr (str_exn e))]
      | Inr v \<Rightarrow> v)"

definition photo_calls :: "client_config \<Rightarrow> string list \<Rightarrow> net_call list" where
  "photo_calls cfg image_urls = map (\<lambda>u. rest_call cfg (photo_args cfg (JStr u))) image_urls"

subsection \<open>Media entries\<close>

text \<open>The five categories. A probe result asks for an upload when its \<open>file_type\<close> is
  \<open>image\<close> or \<open>video\<close>; the upload it asks for.\<close>

definition file_types :: "string list" where
  "file_types = [''image'', ''document'', ''audio'', ''video'', ''unknown'']"

definition wants_upload :: "json \<Rightarrow> bool" where
  "wants_upload mime_info =
     (json_lookup mime_info ''file_type'' = Some (JStr ''image'')
      \<or> json_lookup mime_info ''file_type'' = Some (JStr ''video''))"

definition media_upload_args :: "client_config \<Rightarrow> json \<Rightarrow> json \<Rightarrow> rest_args" where
  "media_upload_args cfg mime_info media_url =
     (if json_lookup mime_info ''file_type'' = Some (JStr ''video'')
      then media_video_args cfg media_url else photo_args cfg media_url)"

text \<open>An entry is passed over when it is skipped, or when it is uploaded and the response
  contains \<open>error\<close>; the result is the world that it leaves. \<open>all_passed_over\<close> passes
  over every entry of a list in turn.\<close>

definition passed_over :: "client_config \<Rightarrow> host_env \<Rightarrow> json \<Rightarrow> world \<Rightarrow> world option" where
  "passed_over cfg env media w =
     (case media of
        JDict m \<Rightarrow>
          (case get_mime_type env None (dict_get m ''url'' JNull) JNull w of
             Some (Inr mime_info, w1) \<Rightarrow>
               if wants_upload mime_info then
                 (case script w1 of
                    [] \<Rightarrow> None
                  | out # outs \<Rightarrow>
                      if is_error_response cfg out
                      then Some (after_call w1
                             (rest_call cfg (media_upload_args cfg mime_info (dict_get m ''url'' JNull))))
                      else None)
               else Some w1
           | _ \<Rightarrow> None)
      | _ \<Rightarrow> None)"

fun all_passed_over :: "client_config \<Rightarrow> host_env \<Rightarrow> json list \<Rightarrow> world \<Rightarrow> world option" where
  "all_passed_over cfg env [] w = Some w"
| "all_passed_over cfg env (media # rest_media) w =
     (case passed_over cfg env media w of
        None \<Rightarrow> None
      | Some w1 \<Rightarrow> all_passed_over cfg env rest_media w1)"

text \<open>Calls without a JSON body: probes and uploads have none, the feed post has one.\<close>

definition no_body :: "net_call list \<Rightarrow> bool" where
  "no_body cs = list_all (\<lambda>c. call_json c = None) cs"

subsection \<open>Downloads\<close>

text \<open>The extension that \<open>download_file\<close> derives from the response to its probe, and
  the path under which it stores the file.\<close>

definition extension_of :: "host_env \<Rightarrow> http_response \<Rightarrow> string option" where
  "extension_of env r =
     guess_extension env
       (takeWhile (\<lambda>c. c \<noteq> CHR 0x3B) (case content_type r of None \<Rightarrow> [] | Some s \<Rightarrow> s))"

definition store_path :: "host_env \<Rightarrow> http_response \<Rightarrow> string" where
  "store_path env r = ''fb/'' @ random_name env @ the (extension_of env r)"

subsection \<open>Credentials\<close>

text \<open>The credentials that a call carries are the values of \<open>access_token\<close> in its query
  parameters and in its form data. The two tokens of a configuration. The calls that go to
  the Graph API are those that are no \<open>HEAD\<close> probes.\<close>

definition opt_list :: "'a list option \<Rightarrow> 'a list" where
  "opt_list x = (case x of None \<Rightarrow> [] | Some xs \<Rightarrow> xs)"

definition credentials :: "net_call \<Rightarrow> json list" where
  "credentials c =
     map snd (filter (\<lambda>kv. fst kv = ''access_token'')
                (opt_list (call_params c) @ opt_list (call_data c)))"

definition page_token :: "client_config \<Rightarrow> json" where
  "page_token cfg = JStr (access_token cfg)"

definition app_token :: "client_config \<Rightarrow> json" where
  "app_token cfg = JStr (app_id cfg @ ''|'' @ app_secret cfg)"

definition graph_calls :: "net_call list \<Rightarrow> net_call list" where
  "graph_calls cs = filter (\<lambda>c. call_method c \<noteq> ''HEAD'') cs"

definition all_carry :: "json \<Rightarrow> net_call list \<Rightarrow> bool" where
  "all_carry tok cs = list_all (\<lambda>c. credentials c = [tok]) cs"

definition probe_or_page :: "client_config \<Rightarrow> net_call \<Rightarrow> bool" where
  "probe_or_page cfg c = (call_method c = ''HEAD'' \<or> credentials c = [page_token cfg])"

subsection \<open>Requests as they go out\<close>

text \<open>The URL of an endpoint: the endpoint itself when it is absolute, else the endpoint
  after the base URL.\<close>

definition absolute_url :: "client_config \<Rightarrow> string \<Rightarrow> string" where
  "absolute_url cfg endpoint =
     (if take 7 endpoint = ''http://'' \<or> take 8 endpoint = ''https://'' then endpoint
      else api_url cfg @ endpoint)"

text \<open>The requests of \<open>list_all_pages\<close> for a chain of linked pages: \<open>me/accounts\<close> with
  the page token and the limit, then the \<open>next\<close> URL of each page with no parameter.\<close>

definition page_request :: "client_config \<Rightarrow> string \<Rightarrow> (string \<times> json) list \<Rightarrow> net_call" where
  "page_request cfg endpoint params =
     \<lparr>call_method = ''GET'', call_url = JStr (absolute_url cfg endpoint),
      call_params = Some params, call_data = None, call_json = None, call_headers = None\<rparr>"

definition page_requests ::
  "client_config \<Rightarrow> int \<Rightarrow> (json list \<times> string) list \<Rightarrow> net_call list" where
  "page_requests cfg limit ps =
     page_request cfg ''me/accounts''
       [(''access_token'', JStr (access_token cfg)), (''limit'', JInt limit)]
     # map (\<lambda>p. page_request cfg (snd p) []) ps"

text \<open>The upload of one image, and the feed post that attaches the given identifiers.\<close>

definition photo_upload :: "client_config \<Rightarrow> string \<Rightarrow> net_call" where
  "photo_upload cfg image_url =
     \<lparr>call_method = ''POST'', call_url = JStr (absolute_url cfg (page_id cfg @ ''/photos'')),
      call_params = Some [(''access_token'', JStr (access_token cfg)),
                          (''url'', JStr image_url),
                          (''published'', JStr ''false'')],
      call_data = None, call_json = None, call_headers = None\<rparr>"

definition feed_post :: "client_config \<Rightarrow> string \<Rightarrow> json list \<Rightarrow> net_call" where
  "feed_post cfg caption ids =
     \<lparr>call_method = ''POST'', call_url = JStr (absolute_url cfg (page_id cfg @ ''/feed'')),
      call_params = Some [(''access_token'', JStr (access_token cfg))],
      call_data = None,
      call_json = Some (JDict [(''message'', JStr caption),
                               (''attached_media'',
                                JList (map (\<lambda>i. JDict [(''media_fbid'', i)]) ids))]),
      call_headers = None\<rparr>"

text \<open>The probe of a URL.\<close>

definition probe_call :: "json \<Rightarrow> net_call" where
  "probe_call url =
     \<lparr>call_method = ''HEAD'', call_url = url, call_params = None, call_data = None,
      call_json = None, call_headers = None\<rparr>"

subsection \<open>Categories of MIME types\<close>

text \<open>The category of a detected type, the dictionary that \<open>get_mime_type\<close> returns for
  it, and the exceptions of the \<open>RequestException\<close> family.\<close>

definition category :: "json \<Rightarrow> string" where
  "category d =
     (if d = JStr ''image/jpeg'' \<or> d = JStr ''image/png'' \<or> d = JStr ''image/gif''
         \<or> d = JStr ''image/webp'' then ''image''
      else if d = JStr ''application/pdf'' \<or> d = JStr ''text/plain'' then ''document''
      else if d = JStr ''audio/mpeg'' \<or> d = JStr ''audio/wav'' then ''audio''
      else if d = JStr ''video/mp4'' \<or> d = JStr ''video/quicktime'' then ''video''
      else ''unknown'')"

definition classification :: "json \<Rightarrow> json" where
  "classification d = JDict [(''file_type'', JStr (category d)), (''mime'', d)]"

definition transport_error :: "py_exn \<Rightarrow> bool" where
  "transport_error e =
     (case e of
        Timeout m \<Rightarrow> True
      | RequestException m r \<Rightarrow> True
      | RequestsJSONDecodeError m \<Rightarrow> True
      | _ \<Rightarrow> False)"

text \<open>A URL that \<open>requests\<close> cannot parse: the probe raises an exception of \<open>urllib3\<close>,
  which is no \<open>RequestException\<close>.\<close>

definition bad_url :: json where
  "bad_url = JStr ''http://a..b/x.png''"

definition location_parse_error :: py_exn where
  "location_parse_error = OtherException ''Failed to parse: a..b, label empty or too long''"

subsection \<open>Concrete inputs\<close>

text \<open>A configuration, and the handshake request of the specification.\<close>

definition cfg_T :: client_config where
  "cfg_T = \<lparr>api_url = ''https://graph.facebook.com/v19.0/'', app_secret = ''s3'', app_id = ''42'',
     page_id = ''99'', access_token = ''PAGE'', verify_token = ''T'',
     subscription_fields = Some ''feed'', timeout = 10\<rparr>"

definition hub_request :: "(string \<times> json) list" where
  "hub_request = [(''hub.mode'', JStr ''subscribe''), (''hub.verify_token'', JStr ''T''),
     (''hub.challenge'', JStr ''123'')]"

text \<open>A reaction on the page feed, built from the inside out.\<close>

definition ex_from :: "(string \<times> json) list" where
  "ex_from = [(''id'', JStr ''7''), (''name'', JStr ''Ann'')]"

definition ex_value :: "(string \<times> json) list" where
  "ex_value = [(''from'', JDict ex_from), (''item'', JStr ''reaction''),
     (''reaction_type'', JStr ''like'')]"

definition ex_change :: "(string \<times> json) list" where
  "ex_change = [(''value'', JDict ex_value)]"

definition ex_feed_entry :: "(string \<times> json) list" where
  "ex_feed_entry = [(''id'', JStr ''1''), (''changes'', JList [JDict ex_change])]"

definition ex_feed :: "(string \<times> json) list" where
  "ex_feed = [(''entry'', JList [JDict ex_feed_entry])]"

text \<open>A Messenger text.\<close>

definition ex_sender :: "(string \<times> json) list" where
  "ex_sender = [(''id'', JStr ''8'')]"

definition ex_text :: "(string \<times> json) list" where
  "ex_text = [(''text'', JStr ''hi'')]"

definition ex_messaging :: "(string \<times> json) list" where
  "ex_messaging = [(''sender'', JDict ex_sender), (''message'', JDict ex_text)]"

definition ex_chat_entry :: "(string \<times> json) list" where
  "ex_chat_entry = [(''id'', JStr ''1''), (''messaging'', JList [JDict ex_messaging])]"

definition ex_chat :: "(string \<times> json) list" where
  "ex_chat = [(''entry'', JList [JDict ex_chat_entry])]"

text \<open>A Messenger text whose \<open>messaging\<close> item names no sender, and a payload whose first
  entry has an \<open>id\<close> and nothing else.\<close>

definition ex_no_sender :: json where
  "ex_no_sender = JDict [(''entry'', JList [JDict [(''id'', JStr ''1''),
      (''messaging'', JList [JDict [(''message'', JDict [(''text'', JStr ''hi'')])]])]])]"



text \<open>A host that knows one image type, and whose storage works.\<close>

definition ex_env :: host_env where
  "ex_env = \<lparr>guess_type = (\<lambda>p. if p = ''a.png'' then Inr (Some ''image/png'')
                       else if p = ''//[x/a.png'' then Inl (ValueError ''Invalid IPv6 URL'')
                       else Inr None),
     guess_extension = (\<lambda>t. if t = ''image/png'' then Some ''.png'' else None),
     random_name = ''abcdefghij'',
     save_file_raises = (\<lambda>p b. None),
     get_file_url = (\<lambda>p. Inr (JStr (''https://files.example/'' @ p)))\<rparr>"

text \<open>A response with status 200, by its content type, its body and its decoded body.\<close>

definition ex_response :: "string option \<Rightarrow> string \<Rightarrow> json \<Rightarrow> http_response" where
  "ex_response ctype body v = \<lparr>status_code = 200, reason = ''OK'',
     resp_url = ''https://graph.facebook.com/v19.0/me'', content_type = ctype,
     content = body, json_body = Inr v, stream_error = None\<rparr>"

text \<open>The response that ends a chain of redirections: its status is 302 and its body is
  text, not JSON. \<open>requests\<close> raises \<open>TooManyRedirects\<close> with that response.\<close>

definition r_redirect :: http_response where
  "r_redirect = \<lparr>status_code = 302, reason = ''Found'',
     resp_url = ''https://graph.facebook.com/v19.0/me'', content_type = Some ''text/plain'',
     content = ''Found. Redirecting to /me'',
     json_body = Inl (RequestsDecodeError ''Expecting value: line 1 column 1 (char 0)''),
     stream_error = None\<rparr>"

definition too_many_redirects :: py_exn where
  "too_many_redirects = RequestException ''Exceeded 30 redirects.'' (Some r_redirect)"

text \<open>Responses to a probe with and without a known type, and a download whose stream
  breaks.\<close>

definition head_png :: http_response where
  "head_png = ex_response (Some ''image/png; q=1'') [] JNull"

definition head_odd :: http_response where
  "head_odd = ex_response (Some ''text/weird; charset=utf-8'') [] JNull"

definition head_pdf :: http_response where
  "head_pdf = ex_response (Some ''application/pdf'') [] JNull"

definition body_broken :: http_response where
  "body_broken = (ex_response (Some ''image/png'') ''PNG'' JNull)\<lparr>stream_error := Some ''connection broken''\<rparr>"

text \<open>Two pages of accounts, the first linked to the second, and a server error.\<close>

definition next_url :: string where
  "next_url = ''https://graph.facebook.com/v19.0/me/accounts?after=c1''"

definition page_one :: http_outcome where
  "page_one = Responds (ex_response (Some ''application/json'') ''(page 1)''
     (JDict [(''data'', JList [JDict [(''id'', JStr ''p1'')]]),
             (''paging'', JDict [(''next'', JStr next_url)])]))"

definition page_two :: http_outcome where
  "page_two = Responds (ex_response (Some ''application/json'') ''(page 2)''
     (JDict [(''data'', JList [JDict [(''id'', JStr ''p2'')]])]))"

definition server_error :: http_outcome where
  "server_error = Responds ((ex_response None [] JNull)\<lparr>status_code := 500, reason := ''Internal Server Error''\<rparr>)"

text \<open>An upload that succeeds with an identifier, and one that is refused.\<close>

definition upload_ok :: "string \<Rightarrow> http_outcome" where
  "upload_ok i = Responds (ex_response (Some ''application/json'') ''(id)'' (JDict [(''id'', JStr i)]))"

definition upload_bad :: http_outcome where
  "upload_bad = Responds ((ex_response None [] JNull)\<lparr>status_code := 400, reason := ''Bad Request''\<rparr>)"

text \<open>Four media entries: a document, a URL that cannot be reached, an entry without a
  URL, and an image whose upload is refused; the outcomes they meet and the calls they
  cause.\<close>

definition ex_media :: "json list" where
  "ex_media = [JDict [(''url'', JStr ''http://h/doc.pdf'')],
               JDict [(''url'', JStr ''http://h/gone'')],
               JDict [],
               JDict [(''url'', JStr ''http://h/a.png'')]]"

definition ex_media_script :: "http_outcome list" where
  "ex_media_script = [Responds head_pdf, Raises (RequestException ''connection refused'' None),
     Responds (ex_response (Some ''image/png'') [] JNull), upload_bad]"

definition ex_media_calls :: "net_call list" where
  "ex_media_calls = [head_call (JStr ''http://h/doc.pdf''), head_call (JStr ''http://h/gone''),
     head_call (JStr ''http://h/a.png''),
     rest_call cfg_T (photo_args cfg_T (JStr ''http://h/a.png''))]"

text \<open>Worlds before and after single requests, a pagination and a post of images.\<close>

definition hook_world :: world where
  "hook_world = start [upload_ok ''done'']"

definition hook_world' :: "rest_args \<Rightarrow> world" where
  "hook_world' a = \<lparr>script = [], sent = [rest_call cfg_T a], saved = []\<rparr>"

definition paged_world :: world where
  "paged_world = \<lparr>script = [],
     sent = [rest_call cfg_T (pages_args ''me/accounts'' (first_params cfg_T 100)),
             rest_call cfg_T (pages_args next_url [])],
     saved = []\<rparr>"

definition posted_world :: world where
  "posted_world = \<lparr>script = [],
     sent = photo_calls cfg_T [''http://h/1.png'', ''http://h/2.png'']
              @ [rest_call cfg_T (feed_args cfg_T ''cap'' [JStr ''m1''])],
     saved = []\<rparr>"

section \<open>Properties\<close>

lemma bnd_Inr [simp]: "bnd (Inr x) f = f x"
  by (simp add: bnd_def)

lemma bnd_Inl [simp]: "bnd (Inl e) f = Inl e"
  by (simp add: bnd_def)

declare str_nat.simps [simp del]

subsection \<open>Inbound payloads\<close>

text \<open>
  C1 (as amended). A payload whose first entry is a dictionary with an \<open>id\<close> and a
  \<open>changes\<close> list, whose first change has a \<open>value\<close> with a sender (\<open>from.id\<close>,
  \<open>from.name\<close>) and an \<open>item\<close>, is parsed to the record with that sender, with
  \<open>message_type\<close> the item and \<open>message\<close> the value of
  \<open>value.get("message") or value.get("reaction_type")\<close>. A payload whose first entry has
  an \<open>id\<close>, no \<open>changes\<close> and a \<open>messaging\<close> list, whose first item has a \<open>sender.id\<close>
  and a \<open>message\<close> dictionary, is parsed to the record with \<open>message_type\<close>
  \<open>"message"\<close>, \<open>message\<close> the text (or \<open>None\<close>) and \<open>attachments\<close> the attachments of
  the message (or the empty list). In both records \<open>page_id\<close> is the \<open>id\<close> of the entry,
  \<open>data\<close> is the request, and \<open>caption\<close> and \<open>parent_message_id\<close> are empty.
\<close>

theorem parse_inbound_message_shapes:
  "(request = JDict r \<and> map_of r ''entry'' = Some (JList (JDict e # es))
      \<and> map_of e ''id'' = Some pid
      \<and> map_of e ''changes'' = Some (JList (JDict c # cs))
      \<and> map_of c ''value'' = Some (JDict v)
      \<and> map_of v ''from'' = Some (JDict f)
      \<and> map_of f ''id'' = Some sid \<and> map_of f ''name'' = Some sname
      \<and> map_of v ''item'' = Some item
    \<longrightarrow> parse_inbound_message request =
          JDict [(''sender_name'', sname),
                 (''sender_id'', sid),
                 (''page_id'', pid),
                 (''message_type'', item),
                 (''message'',
                  py_or (dict_get v ''message'' JNull) (dict_get v ''reaction_type'' JNull)),
                 (''attachments'', JList []),
                 (''caption'', JStr []),
                 (''data'', request),
                 (''parent_message_id'', JStr [])])
   \<and> (request = JDict r \<and> map_of r ''entry'' = Some (JList (JDict e # es))
      \<and> map_of e ''id'' = Some pid
      \<and> map_of e ''changes'' = None
      \<and> map_of e ''messaging'' = Some (JList (JDict m # ms))
      \<and> map_of m ''sender'' = Some (JDict s) \<and> map_of s ''id'' = Some sid
      \<and> map_of m ''message'' = Some (JDict msg)
    \<longrightarrow> parse_inbound_message request =
          JDict [(''sender_name'', JStr []),
                 (''sender_id'', sid),
                 (''page_id'', pid),
                 (''message_type'', JStr ''message''),
                 (''message'', dict_get msg ''text'' JNull),
                 (''attachments'', dict_get msg ''attachments'' (JList [])),
                 (''caption'', JStr []),
                 (''data'', request),
                 (''parent_message_id'', JStr [])])"
  by (auto simp: parse_inbound_message_def parse_inbound_body_def parse_changes_def
       parse_messaging_def mk_payload_def py_or_def dict_get_def split: option.splits)

theorem parse_inbound_message_shapes_witness:
  "parse_inbound_message (JDict ex_feed) =
     JDict [(''sender_name'', JStr ''Ann''), (''sender_id'', JStr ''7''), (''page_id'', JStr ''1''),
            (''message_type'', JStr ''reaction''), (''message'', JStr ''like''),
            (''attachments'', JList []), (''caption'', JStr []), (''data'', JDict ex_feed),
            (''parent_message_id'', JStr [])]
   \<and> parse_inbound_message (JDict ex_chat) =
     JDict [(''sender_name'', JStr []), (''sender_id'', JStr ''8''), (''page_id'', JStr ''1''),
            (''message_type'', JStr ''message''), (''message'', JStr ''hi''),
            (''attachments'', JList []), (''caption'', JStr []), (''data'', JDict ex_chat),
            (''parent_message_id'', JStr [])]"
proof
  have feed: "JDict ex_feed = JDict ex_feed
      \<and> map_of ex_feed ''entry'' = Some (JList (JDict ex_feed_entry # []))
      \<and> map_of ex_feed_entry ''id'' = Some (JStr ''1'')
      \<and> map_of ex_feed_entry ''changes'' = Some (JList (JDict ex_change # []))
      \<and> map_of ex_change ''value'' = Some (JDict ex_value)
      \<and> map_of ex_value ''from'' = Some (JDict ex_from)
      \<and> map_of ex_from ''id'' = Some (JStr ''7'') \<and> map_of ex_from ''name'' = Some (JStr ''Ann'')
      \<and> map_of ex_value ''item'' = Some (JStr ''reaction'')"
    by (simp add: ex_feed_def ex_feed_entry_def ex_change_def ex_value_def ex_from_def)
  from parse_inbound_message_shapes [THEN conjunct1, rule_format, OF feed]
  show "parse_inbound_message (JDict ex_feed) =
     JDict [(''sender_name'', JStr ''Ann''), (''sender_id'', JStr ''7''), (''page_id'', JStr ''1''),
            (''message_type'', JStr ''reaction''), (''message'', JStr ''like''),
            (''attachments'', JList []), (''caption'', JStr []), (''data'', JDict ex_feed),
            (''parent_message_id'', JStr [])]"
    by (simp add: py_or_def dict_get_def ex_value_def)
next
  have chat: "JDict ex_chat = JDict ex_chat
      \<and> map_of ex_chat ''entry'' = Some (JList (JDict ex_chat_entry # []))
      \<and> map_of ex_chat_entry ''id'' = Some (JStr ''1'')
      \<and> map_of ex_chat_entry ''changes'' = None
      \<and> map_of ex_chat_entry ''messaging'' = Some (JList (JDict ex_messaging # []))
      \<and> map_of ex_messaging ''sender'' = Some (JDict ex_sender)
      \<and> map_of ex_sender ''id'' = Some (JStr ''8'')
      \<and> map_of ex_messaging ''message'' = Some (JDict ex_text)"
    by (simp add: ex_chat_def ex_chat_entry_def ex_messaging_def ex_sender_def ex_text_def)
  from parse_inbound_message_shapes [THEN conjunct2, rule_format, OF chat]
  show "parse_inbound_message (JDict ex_chat) =
     JDict [(''sender_name'', JStr []), (''sender_id'', JStr ''8''), (''page_id'', JStr ''1''),
            (''message_type'', JStr ''message''), (''message'', JStr ''hi''),
            (''attachments'', JList []), (''caption'', JStr []), (''data'', JDict ex_chat),
            (''parent_message_id'', JStr [])]"
    by (simp add: dict_get_def ex_text_def)
qed

text \<open>
  The claim C1 as it is written fails: the first entry of \<open>ex_no_sender\<close> has a
  \<open>messaging\<close> key and a message with a text, but no \<open>sender\<close>; the lookup of the sender
  raises, and the result is the error envelope, which has no \<open>message_type\<close>.
\<close>

theorem parse_inbound_message_no_sender:
  "parse_inbound_message ex_no_sender =
     JDict [(''ok'', JBool False), (''error'', JStr (str_exn (KeyError ''sender'')))]
   \<and> json_lookup (parse_inbound_message ex_no_sender) ''message_type'' = None"
  by (simp add: parse_inbound_message_def parse_inbound_body_def parse_changes_def
       parse_messaging_def ex_no_sender_def json_lookup_def)




subsection \<open>Webhook verification\<close>

text \<open>
  C4. For a request that is a dictionary, \<open>parse_verification_request\<close> returns the
  challenge (the empty string when it is absent or \<open>None\<close>) when the mode is
  \<open>subscribe\<close> and the token is the configured one, and the rejection
  \<open>{"message": "Invalid token or mode", "code": 403}\<close> in every other case; so, unless the
  challenge is itself that rejection, it returns the challenge if and only if the
  handshake passes. A request that is no dictionary has no \<open>get\<close>; the exception is caught
  and the result is an error payload. The function returns a value for every request: it
  never raises.
\<close>

theorem parse_verification_request_decides:
  "parse_verification_request cfg (JDict r) =
     (if handshake_ok cfg r then challenge_of r else rejection)
   \<and> (challenge_of r \<noteq> rejection \<longrightarrow>
        (parse_verification_request cfg (JDict r) = challenge_of r \<longleftrightarrow> handshake_ok cfg r))
   \<and> ((\<forall>d. request \<noteq> JDict d) \<longrightarrow>
        (\<exists>e. parse_verification_request cfg request = JDict [(''error'', JStr (str_exn e))]))"
proof (intro conjI impI)
  show "parse_verification_request cfg (JDict r) =
     (if handshake_ok cfg r then challenge_of r else rejection)"
    by (auto simp: parse_verification_request_def verification_body_def handshake_ok_def
          challenge_of_def rejection_def dict_get_def split: option.splits)
  then show "parse_verification_request cfg (JDict r) = challenge_of r \<longleftrightarrow> handshake_ok cfg r"
    if "challenge_of r \<noteq> rejection"
    using that by auto
  show "\<exists>e. parse_verification_request cfg request = JDict [(''error'', JStr (str_exn e))]"
    if "\<forall>d. request \<noteq> JDict d"
  proof -
    from that obtain e where "get_method request ''hub.mode'' JNull = Inl e"
      by (cases request) auto
    then have "parse_verification_request cfg request = JDict [(''error'', JStr (str_exn e))]"
      by (simp add: parse_verification_request_def verification_body_def)
    then show ?thesis ..
  qed
qed

theorem parse_verification_request_decides_witness:
  "challenge_of hub_request \<noteq> rejection
   \<and> parse_verification_request cfg_T (JDict hub_request) = JStr ''123''
   \<and> parse_verification_request (cfg_T\<lparr>verify_token := ''WRONG''\<rparr>) (JDict hub_request)
       = JDict [(''message'', JStr ''Invalid token or mode''), (''code'', JInt 403)]
   \<and> (\<forall>d. JNull \<noteq> JDict d)
   \<and> (\<exists>e. parse_verification_request cfg_T JNull = JDict [(''error'', JStr (str_exn e))])"
  using parse_verification_request_decides [of cfg_T hub_request JNull]
    parse_verification_request_decides [of "cfg_T\<lparr>verify_token := ''WRONG''\<rparr>" hub_request JNull]
  by (simp add: challenge_of_def rejection_def dict_get_def hub_request_def handshake_ok_def
        cfg_T_def)

subsection \<open>\<open>send_rest_request\<close>\<close>

lemma exn_response_Some: "exn_response e = Some r \<Longrightarrow> \<exists>m. e = RequestException m (Some r)"
  by (cases e) auto

lemma rest_result_timeout:
  "rest_result cfg (Raises (Timeout m))
     = Inr (JDict [(''error'', JStr (''Timeout after '' @ str_int (timeout cfg) @ '' seconds''))])"
  by (simp add: rest_result_def rest_try_def rest_except_def)

lemma rest_result_success:
  "response_ok r \<Longrightarrow> json_body r = Inr v \<Longrightarrow>
   rest_result cfg (Responds r) = Inr (if content r = [] then JDict [] else v)"
  by (simp add: rest_result_def rest_try_def raise_for_status_def response_json_def)

lemma rest_result_http_error:
  "\<not> response_ok r \<Longrightarrow>
   rest_result cfg (Responds r)
     = Inr (JDict [(''error'', JStr (http_error_msg r)), (''details'', JNull)])"
  by (simp add: rest_result_def rest_try_def raise_for_status_def rest_except_def)

text \<open>The only exception that leaves \<open>send_rest_request\<close> is the one that
  \<open>e.response.json()\<close> raises in the second handler.\<close>

lemma rest_result_raises:
  assumes "rest_result cfg out = Inl e"
  shows "\<exists>m r. out = Raises (RequestException m (Some r)) \<and> response_ok r
      \<and> content r \<noteq> [] \<and> response_json r = Inl e"
proof -
  from assms obtain e0 where t: "rest_try out = Inl e0" and x: "rest_except cfg e0 = Inl e"
    by (auto simp: rest_result_def split: sum.splits)
  from x obtain r where r: "exn_response e0 = Some r" "response_ok r" "content r \<noteq> []"
      "response_json r = Inl e"
    by (auto simp: rest_except_def bnd_def split: if_splits option.splits sum.splits)
  from r(1) obtain m where e0: "e0 = RequestException m (Some r)"
    using exn_response_Some by blast
  from t e0 r(2) have "out = Raises (RequestException m (Some r))"
    by (auto simp: rest_try_def raise_for_status_def bnd_def response_json_def
          split: http_outcome.splits if_splits sum.splits decode_error.splits)
  with r show ?thesis by blast
qed

lemma send_rest_request_unfold:
  "send_rest_request cfg a w =
     (case script w of
        [] \<Rightarrow> None
      | out # outs \<Rightarrow> Some (rest_result cfg out, after_call w (rest_call cfg a)))"
  by (simp add: send_rest_request_def net_def after_call_def split: list.splits)

text \<open>
  C3. The claim is that \<open>send_rest_request\<close> never raises. Here \<open>requests.request\<close>
  raises \<open>TooManyRedirects\<close>, a \<open>RequestException\<close> whose response has status 302 and a
  body that is not JSON. The response is true (its status is no error status) and its
  content is not empty, so the second handler calls \<open>e.response.json()\<close>; the decoding
  error is raised inside the handler, where no handler catches it, and leaves the function.
\<close>

theorem send_rest_request_raises_in_handler:
  "map_option fst (send_rest_request cfg_T (get_user_info_args cfg_T ''id,name'')
      (start [Raises too_many_redirects]))
     = Some (Inl (RequestsJSONDecodeError ''Expecting value: line 1 column 1 (char 0)''))"
  by (simp add: send_rest_request_def net_def start_def rest_result_def rest_try_def
        rest_except_def too_many_redirects_def r_redirect_def response_ok_def response_json_def)

subsection \<open>MIME classification\<close>

lemma classify_shape:
  "\<exists>ft. ft \<in> set file_types \<and> classify d = JDict [(''file_type'', JStr ft), (''mime'', d)]"
  by (simp add: classify_def file_types_def)

lemma classify_classification: "classify d = classification d"
  by (simp add: classify_def classification_def category_def image_types_def
        document_types_def audio_types_def video_types_def)

lemma is_request_exception_transport: "is_request_exception e = transport_error e"
  by (cases e) (simp_all add: transport_error_def)

lemma head_call_probe: "head_call url = probe_call url"
  by (simp add: head_call_def probe_call_def)

text \<open>
  C7 (as amended). \<open>get_mime_type\<close> classifies the detected type against the fixed lists
  (\<open>image/jpeg\<close>, \<open>image/png\<close>, \<open>image/gif\<close>, \<open>image/webp\<close>: image;
  \<open>application/pdf\<close>, \<open>text/plain\<close>: document; \<open>audio/mpeg\<close>, \<open>audio/wav\<close>: audio;
  \<open>video/mp4\<close>, \<open>video/quicktime\<close>: video; anything else, \<open>None\<close> included: unknown) and
  returns \<open>{"file_type": category, "mime": detected}\<close>; an explicit \<open>image/png\<close> gives
  image and an explicit \<open>application/zip\<close> gives unknown. With a non-empty file path the
  detected type is the one that \<open>mimetypes.guess_type\<close> guesses, and an exception of
  \<open>guess_type\<close> leaves the function. With no file path and a non-empty URL, one \<open>HEAD\<close>
  probe is made: the detected type is the \<open>Content-Type\<close> of the response; when the probe
  raises an exception of the \<open>RequestException\<close> family the result is \<open>None\<close>; any other
  exception of the probe leaves the function. With neither, the detected type is the
  \<open>mime_type\<close> argument. The result is \<open>None\<close> only when the probe raised an exception of
  the \<open>RequestException\<close> family.
\<close>

theorem get_mime_type_classifies:
  "get_mime_type env None JNull (JStr ''image/png'') w
      = Some (Inr (JDict [(''file_type'', JStr ''image''), (''mime'', JStr ''image/png'')]), w)
   \<and> get_mime_type env None JNull (JStr ''application/zip'') w
      = Some (Inr (JDict [(''file_type'', JStr ''unknown''), (''mime'', JStr ''application/zip'')]), w)
   \<and> (file_path = Some (c # cs) \<longrightarrow>
        get_mime_type env file_path url mime_type w =
          (case guess_type env (c # cs) of
             Inl e \<Rightarrow> Some (Inl e, w)
           | Inr None \<Rightarrow> Some (Inr (classification JNull), w)
           | Inr (Some t) \<Rightarrow> Some (Inr (classification (JStr t)), w)))
   \<and> ((file_path = None \<or> file_path = Some []) \<and> url = JStr (c # cs) \<and> script w = out # outs
      \<longrightarrow> get_mime_type env file_path url mime_type w =
          Some (case out of
                  Raises e \<Rightarrow> if transport_error e then Inr JNull else Inl e
                | Responds r \<Rightarrow>
                    Inr (classification (case content_type r of None \<Rightarrow> JNull | Some t \<Rightarrow> JStr t)),
                w\<lparr>script := outs, sent := sent w @ [probe_call url]\<rparr>))
   \<and> ((file_path = None \<or> file_path = Some []) \<and> (url = JNull \<or> url = JStr [])
      \<longrightarrow> get_mime_type env file_path url mime_type w = Some (Inr (classification mime_type), w))
   \<and> (get_mime_type env file_path url mime_type w = Some (Inr JNull, w')
      \<longrightarrow> (\<exists>e. transport_error e \<and> script w = Raises e # script w'))"
proof (intro conjI impI)
  show "get_mime_type env None JNull (JStr ''image/png'') w
      = Some (Inr (JDict [(''file_type'', JStr ''image''), (''mime'', JStr ''image/png'')]), w)"
    by (simp add: get_mime_type_def classify_def image_types_def)
  show "get_mime_type env None JNull (JStr ''application/zip'') w
      = Some (Inr (JDict [(''file_type'', JStr ''unknown''), (''mime'', JStr ''application/zip'')]), w)"
    by (simp add: get_mime_type_def classify_def image_types_def document_types_def
          audio_types_def video_types_def)
next
  assume "file_path = Some (c # cs)"
  then show "get_mime_type env file_path url mime_type w =
          (case guess_type env (c # cs) of
             Inl e \<Rightarrow> Some (Inl e, w)
           | Inr None \<Rightarrow> Some (Inr (classification JNull), w)
           | Inr (Some t) \<Rightarrow> Some (Inr (classification (JStr t)), w))"
    by (simp add: get_mime_type_def classify_classification opt_str_def
          split: sum.splits option.splits)
next
  assume "(file_path = None \<or> file_path = Some []) \<and> url = JStr (c # cs) \<and> script w = out # outs"
  then show "get_mime_type env file_path url mime_type w =
          Some (case out of
                  Raises e \<Rightarrow> if transport_error e then Inr JNull else Inl e
                | Responds r \<Rightarrow>
                    Inr (classification (case content_type r of None \<Rightarrow> JNull | Some t \<Rightarrow> JStr t)),
                w\<lparr>script := outs, sent := sent w @ [probe_call url]\<rparr>)"
    by (auto simp: get_mime_type_def net_def classify_classification opt_str_def
          is_request_exception_transport head_call_probe
          split: http_outcome.splits option.splits)
next
  assume "(file_path = None \<or> file_path = Some []) \<and> (url = JNull \<or> url = JStr [])"
  then show "get_mime_type env file_path url mime_type w
      = Some (Inr (classification mime_type), w)"
    by (auto simp: get_mime_type_def classify_classification)
next
  assume "get_mime_type env file_path url mime_type w = Some (Inr JNull, w')"
  then show "\<exists>e. transport_error e \<and> script w = Raises e # script w'"
    by (auto simp: get_mime_type_def net_def classify_classification classification_def
          is_request_exception_transport
          split: if_splits list.splits http_outcome.splits sum.splits)
qed

theorem get_mime_type_classifies_witness:
  "get_mime_type ex_env (Some ''a.png'') JNull JNull (start [])
     = Some (Inr (JDict [(''file_type'', JStr ''image''), (''mime'', JStr ''image/png'')]),
             start [])
   \<and> get_mime_type ex_env (Some ''//[x/a.png'') JNull JNull (start [])
     = Some (Inl (ValueError ''Invalid IPv6 URL''), start [])
   \<and> get_mime_type ex_env None (JStr ''http://h/a'') JNull
        (start [Raises (RequestException ''connection refused'' None)])
     = Some (Inr JNull,
             \<lparr>script = [], sent = [probe_call (JStr ''http://h/a'')], saved = []\<rparr>)
   \<and> get_mime_type ex_env None (JStr ''http://h/a'') JNull
        (start [Responds (ex_response (Some ''video/mp4'') [] JNull)])
     = Some (Inr (JDict [(''file_type'', JStr ''video''), (''mime'', JStr ''video/mp4'')]),
             \<lparr>script = [], sent = [probe_call (JStr ''http://h/a'')], saved = []\<rparr>)
   \<and> get_mime_type ex_env None JNull (JStr ''audio/wav'') (start [])
     = Some (Inr (JDict [(''file_type'', JStr ''audio''), (''mime'', JStr ''audio/wav'')]),
             start [])
   \<and> (\<exists>e. transport_error e
        \<and> script (start [Raises (RequestException ''connection refused'' None)]) = [Raises e])"
proof -
  note t = get_mime_type_classifies [where env = ex_env and w' = "\<lparr>script = [],
      sent = [probe_call (JStr ''http://h/a'')], saved = []\<rparr>"]
  have path: "get_mime_type ex_env (Some ''a.png'') JNull JNull (start [])
     = Some (Inr (JDict [(''file_type'', JStr ''image''), (''mime'', JStr ''image/png'')]),
             start [])"
    using t [where file_path = "Some ''a.png''" and c = "CHR ''a''" and cs = "''.png''"
        and url = JNull and mime_type = JNull and w = "start []"]
    by (simp add: ex_env_def classification_def category_def)
  have bad: "get_mime_type ex_env (Some ''//[x/a.png'') JNull JNull (start [])
     = Some (Inl (ValueError ''Invalid IPv6 URL''), start [])"
    using t [where file_path = "Some ''//[x/a.png''" and c = "CHR ''/''" and cs = "''/[x/a.png''"
        and url = JNull and mime_type = JNull and w = "start []"]
    by (simp add: ex_env_def)
  have down: "get_mime_type ex_env None (JStr ''http://h/a'') JNull
        (start [Raises (RequestException ''connection refused'' None)])
     = Some (Inr JNull,
             \<lparr>script = [], sent = [probe_call (JStr ''http://h/a'')], saved = []\<rparr>)"
    using t [where file_path = None and c = "CHR ''h''" and cs = "''ttp://h/a''"
        and url = "JStr ''http://h/a''" and mime_type = JNull
        and out = "Raises (RequestException ''connection refused'' None)" and outs = "[]"
        and w = "start [Raises (RequestException ''connection refused'' None)]"]
    by (simp add: start_def transport_error_def)
  have video: "get_mime_type ex_env None (JStr ''http://h/a'') JNull
        (start [Responds (ex_response (Some ''video/mp4'') [] JNull)])
     = Some (Inr (JDict [(''file_type'', JStr ''video''), (''mime'', JStr ''video/mp4'')]),
             \<lparr>script = [], sent = [probe_call (JStr ''http://h/a'')], saved = []\<rparr>)"
    using t [where file_path = None and c = "CHR ''h''" and cs = "''ttp://h/a''"
        and url = "JStr ''http://h/a''" and mime_type = JNull
        and out = "Responds (ex_response (Some ''video/mp4'') [] JNull)" and outs = "[]"
        and w = "start [Responds (ex_response (Some ''video/mp4'') [] JNull)]"]
    by (simp add: start_def ex_response_def classification_def category_def)
  have given: "get_mime_type ex_env None JNull (JStr ''audio/wav'') (start [])
     = Some (Inr (JDict [(''file_type'', JStr ''audio''), (''mime'', JStr ''audio/wav'')]),
             start [])"
    using t [where file_path = None and url = JNull and mime_type = "JStr ''audio/wav''"
        and w = "start []"]
    by (simp add: classification_def category_def)
  have none: "\<exists>e. transport_error e
        \<and> script (start [Raises (RequestException ''connection refused'' None)]) = [Raises e]"
    using t [where file_path = None and url = "JStr ''http://h/a''" and mime_type = JNull
        and w = "start [Raises (RequestException ''connection refused'' None)]"] down
    by simp
  from path bad down video given none show ?thesis by blast
qed

text \<open>
  The claim C7 as it is written fails: it says that \<open>get_mime_type\<close> returns a
  classification in every case but that of a transport error of the probe. The probe of
  \<open>bad_url\<close> raises an exception that is no \<open>RequestException\<close>; it is not caught, and
  \<open>get_mime_type\<close> returns neither \<open>None\<close> nor a classification: it raises.
\<close>

theorem get_mime_type_probe_raises:
  "\<not> transport_error location_parse_error
   \<and> get_mime_type ex_env None bad_url JNull (start [Raises location_parse_error])
     = Some (Inl location_parse_error,
             \<lparr>script = [], sent = [probe_call bad_url], saved = []\<rparr>)"
  by (simp add: get_mime_type_def net_def start_def bad_url_def location_parse_error_def
        transport_error_def probe_call_def head_call_def)

subsection \<open>\<open>download_file\<close>\<close>

text \<open>
  C8. When the response to the \<open>HEAD\<close> probe gives no extension, \<open>download_file\<close>
  returns \<open>None\<close> and the probe is the only call it has made. When a step of the body
  raises (the probe, the download, the reading of the chunks, the storing of the file or
  the resolving of its URL), \<open>download_file\<close> returns \<open>None\<close>: the result is a value in
  every case, and the cause is not in it.
\<close>

theorem download_file_none:
  "(script w = Responds r # outs \<and> (extension_of env r = None \<or> extension_of env r = Some [])
      \<longrightarrow> download_file env url w = Some (JNull, after_call w (head_call (JStr url))))
   \<and> (download_body env url w = Some (Inl e, w') \<longrightarrow> download_file env url w = Some (JNull, w'))
   \<and> (script w = Raises e # outs
      \<longrightarrow> download_file env url w = Some (JNull, after_call w (head_call (JStr url))))
   \<and> (script w = Responds r # Raises e # outs \<and> extension_of env r = Some (x # xs)
      \<longrightarrow> download_file env url w
          = Some (JNull, after_call (after_call w (head_call (JStr url))) (get_call (JStr url))))
   \<and> (script w = Responds r # Responds body # outs \<and> extension_of env r = Some (x # xs)
        \<and> status_code body = 200
        \<and> (stream_error body \<noteq> None
            \<or> save_file_raises env (store_path env r) (content body) \<noteq> None
            \<or> (\<exists>e'. get_file_url env (store_path env r) = Inl e'))
      \<longrightarrow> (\<exists>w'. download_file env url w = Some (JNull, w')))"
  by (auto simp: download_file_def download_body_def net_def extension_of_def after_call_def
        store_path_def Let_def split: option.splits sum.splits)

lemma extension_of_head_png: "extension_of ex_env head_png = Some ''.png''"
  by (simp add: extension_of_def ex_env_def head_png_def ex_response_def)

lemma extension_of_head_odd: "extension_of ex_env head_odd = None"
  by (simp add: extension_of_def ex_env_def head_odd_def ex_response_def)

theorem download_file_none_witness:
  "download_file ex_env ''http://h/a'' (start [Responds head_odd, Responds body_broken])
     = Some (JNull, \<lparr>script = [Responds body_broken], sent = [head_call (JStr ''http://h/a'')], saved = []\<rparr>)
   \<and> download_file ex_env ''http://h/a'' (start [Raises (Timeout ''timed out'')])
     = Some (JNull, \<lparr>script = [], sent = [head_call (JStr ''http://h/a'')], saved = []\<rparr>)
   \<and> download_file ex_env ''http://h/a'' (start [Responds head_png, Raises (OtherException ''boom'')])
     = Some (JNull, \<lparr>script = [], sent = [head_call (JStr ''http://h/a''), get_call (JStr ''http://h/a'')], saved = []\<rparr>)
   \<and> (\<exists>w'. download_file ex_env ''http://h/a'' (start [Responds head_png, Responds body_broken])
     = Some (JNull, w'))"
  using download_file_none [where env = ex_env and url = "''http://h/a''" and r = head_odd
      and w = "start [Responds head_odd, Responds body_broken]" and outs = "[Responds body_broken]"]
    download_file_none [where env = ex_env and url = "''http://h/a''" and e = "Timeout ''timed out''"
      and w = "start [Raises (Timeout ''timed out'')]" and outs = "[]"]
    download_file_none [where env = ex_env and url = "''http://h/a''" and r = head_png
      and e = "OtherException ''boom''" and x = "CHR ''.''" and xs = "''png''"
      and w = "start [Responds head_png, Raises (OtherException ''boom'')]" and outs = "[]"]
    download_file_none [where env = ex_env and url = "''http://h/a''" and r = head_png
      and body = body_broken and x = "CHR ''.''" and xs = "''png''"
      and w = "start [Responds head_png, Responds body_broken]" and outs = "[]"]
  by (simp add: extension_of_head_png extension_of_head_odd start_def after_call_def body_broken_def ex_response_def)

subsection \<open>\<open>list_all_pages\<close>\<close>

declare pages_loop.simps [simp del]

lemma pages_step_page:
  assumes "rest_result cfg out = Inr response" "is_page cfg out items nxt"
  shows "pages_step response acc =
     Inr (if truthy nxt then Continue (acc @ items) nxt else Break (acc @ items))"
  using assms
  by (auto simp: is_page_def pages_step_def dict_get_def split: json.splits option.splits sum.splits)

lemma pages_loop_follow:
  assumes "linked cfg out p"
  shows "pages_loop cfg endpoint params acc \<lparr>script = out # outs, sent = s0, saved = sv\<rparr>
     = pages_loop cfg (snd p) [] (acc @ fst p)
         \<lparr>script = outs, sent = s0 @ [rest_call cfg (pages_args endpoint params)], saved = sv\<rparr>"
proof -
  from assms obtain d where d: "rest_result cfg out = Inr (JDict d)"
    by (auto simp: linked_def is_page_def split: sum.splits json.splits)
  from assms have pg: "is_page cfg out (fst p) (JStr (snd p))" and ne: "snd p \<noteq> []"
    by (simp_all add: linked_def)
  have st: "pages_step (JDict d) acc = Inr (Continue (acc @ fst p) (JStr (snd p)))"
    using pages_step_page [OF d pg, of acc] ne by simp
  show ?thesis
    by (subst pages_loop.simps) (simp add: send_rest_request_unfold after_call_def d st)
qed

lemma pages_loop_last:
  assumes "is_page cfg out items nxt" "\<not> truthy nxt"
  shows "pages_loop cfg endpoint params acc \<lparr>script = out # outs, sent = s0, saved = sv\<rparr>
     = Some (Inr (JList (acc @ items)),
         \<lparr>script = outs, sent = s0 @ [rest_call cfg (pages_args endpoint params)], saved = sv\<rparr>)"
proof -
  from assms obtain d where d: "rest_result cfg out = Inr (JDict d)"
    by (auto simp: is_page_def split: sum.splits json.splits)
  have st: "pages_step (JDict d) acc = Inr (Break (acc @ items))"
    using pages_step_page [OF d assms(1), of acc] assms(2) by simp
  show ?thesis
    by (subst pages_loop.simps) (simp add: send_rest_request_unfold after_call_def d st)
qed

lemma pages_loop_error:
  assumes "is_error_response cfg out"
  shows "pages_loop cfg endpoint params acc \<lparr>script = out # outs, sent = s0, saved = sv\<rparr>
     = Some (Inr (JList []),
         \<lparr>script = outs, sent = s0 @ [rest_call cfg (pages_args endpoint params)], saved = sv\<rparr>)"
proof -
  from assms obtain v where v: "rest_result cfg out = Inr v" "py_in ''error'' v = Inr True"
    by (auto simp: is_error_response_def split: sum.splits)
  have st: "pages_step v acc = Inr (Return (JList []))"
    using v(2) by (simp add: pages_step_def)
  show ?thesis
    by (subst pages_loop.simps) (simp add: send_rest_request_unfold after_call_def v st)
qed

lemma pages_loop_chain_last:
  assumes "list_all2 (linked cfg) outs ps" "is_page cfg out items nxt" "\<not> truthy nxt"
  shows "pages_loop cfg endpoint params acc \<lparr>script = outs @ out # tail, sent = s0, saved = sv\<rparr>
     = Some (Inr (JList (acc @ concat (map fst ps) @ items)),
         \<lparr>script = tail, sent = s0 @ follow_calls cfg endpoint params ps, saved = sv\<rparr>)"
  using assms(1)
proof (induction outs ps arbitrary: endpoint params acc s0 rule: list_all2_induct)
  case Nil
  show ?case using pages_loop_last [OF assms(2,3)] by simp
next
  case (Cons o1 outs p ps)
  show ?case
    using pages_loop_follow [OF Cons.hyps(1)] Cons.IH by simp
qed

lemma pages_loop_chain_error:
  assumes "list_all2 (linked cfg) outs ps" "is_error_response cfg out"
  shows "pages_loop cfg endpoint params acc \<lparr>script = outs @ out # tail, sent = s0, saved = sv\<rparr>
     = Some (Inr (JList []),
         \<lparr>script = tail, sent = s0 @ follow_calls cfg endpoint params ps, saved = sv\<rparr>)"
  using assms(1)
proof (induction outs ps arbitrary: endpoint params acc s0 rule: list_all2_induct)
  case Nil
  show ?case using pages_loop_error [OF assms(2)] by simp
next
  case (Cons o1 outs p ps)
  show ?case
    using pages_loop_follow [OF Cons.hyps(1)] Cons.IH by simp
qed

lemma starts_with_take: "starts_with s p = (take (length p) s = p)"
  by (induction s p rule: starts_with.induct) auto

lemma build_url_absolute: "build_url cfg endpoint = absolute_url cfg endpoint"
proof -
  have l7: "length ''http://'' = 7" and l8: "length ''https://'' = 8"
    by simp_all
  have "starts_with endpoint ''http://'' = (take 7 endpoint = ''http://'')"
    using starts_with_take [of endpoint "''http://''"] unfolding l7 .
  moreover have "starts_with endpoint ''https://'' = (take 8 endpoint = ''https://'')"
    using starts_with_take [of endpoint "''https://''"] unfolding l8 .
  ultimately show ?thesis
    by (simp only: build_url_def absolute_url_def)
qed

lemma upper_GET: "upper ''GET'' = ''GET''"
  by (simp add: upper_def upper_char_def)

lemma upper_POST: "upper ''POST'' = ''POST''"
  by (simp add: upper_def upper_char_def)

lemma rest_call_pages: "rest_call cfg (pages_args endpoint params) = page_request cfg endpoint params"
  by (simp add: rest_call_def pages_args_def rest_def page_request_def upper_GET
        build_url_absolute)

lemma follow_calls_requests:
  "follow_calls cfg endpoint params ps =
     page_request cfg endpoint params # map (\<lambda>p. page_request cfg (snd p) []) ps"
  by (induction ps arbitrary: endpoint params) (simp_all add: rest_call_pages)

text \<open>
  C5. When the responses are pages linked by non-empty \<open>paging.next\<close> strings and the
  last one has no \<open>next\<close> (or a false one), \<open>list_all_pages\<close> sends a \<open>GET\<close> to
  \<open>me/accounts\<close> with the token and the limit, then a \<open>GET\<close> to the \<open>next\<close> URL of each
  page in turn, with no parameter, and returns the \<open>data\<close> lists of all pages joined in
  order. When, after such pages, a response contains \<open>error\<close>, it returns the empty list.
\<close>

theorem list_all_pages_follows:
  "(list_all2 (linked cfg) outs ps \<and> is_page cfg out items nxt \<and> \<not> truthy nxt
     \<longrightarrow> list_all_pages cfg limit \<lparr>script = outs @ out # tail, sent = s0, saved = sv\<rparr>
         = Some (JList (concat (map fst ps) @ items),
             \<lparr>script = tail, sent = s0 @ page_requests cfg limit ps, saved = sv\<rparr>))
   \<and> (list_all2 (linked cfg) outs ps \<and> is_error_response cfg out
     \<longrightarrow> list_all_pages cfg limit \<lparr>script = outs @ out # tail, sent = s0, saved = sv\<rparr>
         = Some (JList [],
             \<lparr>script = tail, sent = s0 @ page_requests cfg limit ps, saved = sv\<rparr>))"
proof (intro conjI impI)
  have calls: "follow_calls cfg ''me/accounts'' (first_params cfg limit) ps
      = page_requests cfg limit ps"
    by (simp add: follow_calls_requests page_requests_def first_params_def)
  {
    assume "list_all2 (linked cfg) outs ps \<and> is_page cfg out items nxt \<and> \<not> truthy nxt"
    then show "list_all_pages cfg limit \<lparr>script = outs @ out # tail, sent = s0, saved = sv\<rparr>
         = Some (JList (concat (map fst ps) @ items),
             \<lparr>script = tail, sent = s0 @ page_requests cfg limit ps, saved = sv\<rparr>)"
      using pages_loop_chain_last [of cfg outs ps out items nxt "''me/accounts''"
          "first_params cfg limit" "[]" tail s0 sv]
      by (simp add: list_all_pages_def first_params_def calls [unfolded first_params_def])
  next
    assume "list_all2 (linked cfg) outs ps \<and> is_error_response cfg out"
    then show "list_all_pages cfg limit \<lparr>script = outs @ out # tail, sent = s0, saved = sv\<rparr>
         = Some (JList [],
             \<lparr>script = tail, sent = s0 @ page_requests cfg limit ps, saved = sv\<rparr>)"
      using pages_loop_chain_error [of cfg outs ps out "''me/accounts''"
          "first_params cfg limit" "[]" tail s0 sv]
      by (simp add: list_all_pages_def first_params_def calls [unfolded first_params_def])
  }
qed

lemma rest_result_page_one: "rest_result cfg page_one = Inr (JDict [(''data'', JList [JDict [(''id'', JStr ''p1'')]]),
             (''paging'', JDict [(''next'', JStr next_url)])])"
  by (simp add: page_one_def ex_response_def rest_result_success response_ok_def)

lemma rest_result_page_two: "rest_result cfg page_two = Inr (JDict [(''data'', JList [JDict [(''id'', JStr ''p2'')]])])"
  by (simp add: page_two_def ex_response_def rest_result_success response_ok_def)

lemma page_one_linked: "list_all2 (linked cfg_T) [page_one] [([JDict [(''id'', JStr ''p1'')]], next_url)]"
  by (simp add: linked_def is_page_def rest_result_page_one dict_get_def next_url_def)

lemma page_two_last: "is_page cfg_T page_two [JDict [(''id'', JStr ''p2'')]] JNull"
  by (simp add: is_page_def rest_result_page_two dict_get_def)

lemma server_error_is_error: "is_error_response cfg_T server_error"
  by (simp add: is_error_response_def server_error_def ex_response_def rest_result_http_error response_ok_def)

theorem list_all_pages_follows_witness:
  "list_all_pages cfg_T 100 (start [page_one, page_two])
     = Some (JList [JDict [(''id'', JStr ''p1'')], JDict [(''id'', JStr ''p2'')]],
         \<lparr>script = [],
          sent = [\<lparr>call_method = ''GET'',
                   call_url = JStr ''https://graph.facebook.com/v19.0/me/accounts'',
                   call_params = Some [(''access_token'', JStr ''PAGE''), (''limit'', JInt 100)],
                   call_data = None, call_json = None, call_headers = None\<rparr>,
                  \<lparr>call_method = ''GET'',
                   call_url = JStr ''https://graph.facebook.com/v19.0/me/accounts?after=c1'',
                   call_params = Some [],
                   call_data = None, call_json = None, call_headers = None\<rparr>],
          saved = []\<rparr>)
   \<and> list_all_pages cfg_T 100 (start [page_one, server_error])
     = Some (JList [],
         \<lparr>script = [],
          sent = [\<lparr>call_method = ''GET'',
                   call_url = JStr ''https://graph.facebook.com/v19.0/me/accounts'',
                   call_params = Some [(''access_token'', JStr ''PAGE''), (''limit'', JInt 100)],
                   call_data = None, call_json = None, call_headers = None\<rparr>,
                  \<lparr>call_method = ''GET'',
                   call_url = JStr ''https://graph.facebook.com/v19.0/me/accounts?after=c1'',
                   call_params = Some [],
                   call_data = None, call_json = None, call_headers = None\<rparr>],
          saved = []\<rparr>)"
  using list_all_pages_follows [THEN conjunct1, rule_format, of cfg_T "[page_one]"
         "[([JDict [(''id'', JStr ''p1'')]], next_url)]"
         page_two "[JDict [(''id'', JStr ''p2'')]]" JNull 100 "[]" "[]" "[]"]
    list_all_pages_follows [THEN conjunct2, rule_format, of cfg_T "[page_one]"
         "[([JDict [(''id'', JStr ''p1'')]], next_url)]"
         server_error 100 "[]" "[]" "[]"]
    page_one_linked page_two_last server_error_is_error
  by (simp add: start_def page_requests_def page_request_def absolute_url_def cfg_T_def
        next_url_def)

subsection \<open>\<open>post_images_to_page\<close>\<close>

lemma collect_id_dict:
  "collect_id (JDict d) ids =
     Inr (if map_of d ''error'' = None then ids @ [dict_get d ''id'' JNull] else ids)"
  by (simp add: collect_id_def dict_get_def split: option.splits)

lemma upload_loop_step:
  assumes "is_dict_result cfg out"
  shows "upload_loop cfg (a # as) ids \<lparr>script = out # outs, sent = s0, saved = sv\<rparr>
     = upload_loop cfg as (ids @ (case upload_id cfg out of None \<Rightarrow> [] | Some i \<Rightarrow> [i]))
         \<lparr>script = outs, sent = s0 @ [rest_call cfg a], saved = sv\<rparr>"
proof -
  from assms obtain d where d: "rest_result cfg out = Inr (JDict d)"
    by (auto simp: is_dict_result_def split: sum.splits json.splits)
  show ?thesis
    by (simp add: send_rest_request_unfold after_call_def d collect_id_dict upload_id_def)
qed

lemma map_filter_Cons:
  "List.map_filter f (x # xs) = (case f x of None \<Rightarrow> [] | Some y \<Rightarrow> [y]) @ List.map_filter f xs"
  by (simp add: List.map_filter_simps split: option.splits)

declare List.map_filter_simps [simp del]

lemma upload_loop_all:
  assumes "length outs = length as" "list_all (is_dict_result cfg) outs"
  shows "upload_loop cfg as ids \<lparr>script = outs @ tail, sent = s0, saved = sv\<rparr>
     = Some (Inr (ids @ List.map_filter (upload_id cfg) outs),
         \<lparr>script = tail, sent = s0 @ map (rest_call cfg) as, saved = sv\<rparr>)"
  using assms
proof (induction outs as arbitrary: ids s0 rule: list_induct2)
  case Nil
  show ?case by (simp add: List.map_filter_simps)
next
  case (Cons out outs a as)
  from Cons.prems have d: "is_dict_result cfg out" and r: "list_all (is_dict_result cfg) outs"
    by simp_all
  have "upload_loop cfg (a # as) ids \<lparr>script = (out # outs) @ tail, sent = s0, saved = sv\<rparr>
      = upload_loop cfg as (ids @ (case upload_id cfg out of None \<Rightarrow> [] | Some i \<Rightarrow> [i]))
          \<lparr>script = outs @ tail, sent = s0 @ [rest_call cfg a], saved = sv\<rparr>"
    unfolding append_Cons by (rule upload_loop_step [OF d])
  also have "\<dots> = Some (Inr ((ids @ (case upload_id cfg out of None \<Rightarrow> [] | Some i \<Rightarrow> [i]))
                        @ List.map_filter (upload_id cfg) outs),
         \<lparr>script = tail, sent = (s0 @ [rest_call cfg a]) @ map (rest_call cfg) as, saved = sv\<rparr>)"
    by (rule Cons.IH [OF r])
  finally show ?case
    by (simp add: map_filter_Cons del: upload_loop.simps)
qed

lemma rest_call_photo: "rest_call cfg (photo_args cfg (JStr u)) = photo_upload cfg u"
  by (simp add: rest_call_def photo_args_def rest_def photo_upload_def upper_POST
        build_url_absolute)

lemma rest_call_feed: "rest_call cfg (feed_args cfg caption ids) = feed_post cfg caption ids"
  by (simp add: rest_call_def feed_args_def rest_def feed_post_def upper_POST build_url_absolute)

text \<open>
  C6. When every upload returns a dictionary, \<open>post_images_to_page\<close> sends one upload
  per URL, in order, whatever the responses: a \<open>POST\<close> to the photos of the page with the
  token, the URL and \<open>published\<close> false. The identifiers it keeps are those of the
  responses without an \<open>error\<close> key, in order. When none is kept it returns
  \<open>{"error": "Failed to upload any images"}\<close> and the uploads are the only calls made;
  otherwise the next call is the feed post, a \<open>POST\<close> to the feed of the page whose body
  has the caption and, under \<open>attached_media\<close>, exactly the kept identifiers in order.
\<close>

theorem post_images_to_page_uploads:
  "length outs = length image_urls \<and> list_all (is_dict_result cfg) outs \<longrightarrow>
   post_images_to_page cfg image_urls caption \<lparr>script = outs @ tail, sent = s0, saved = sv\<rparr>
     = (if List.map_filter (upload_id cfg) outs = [] then
          Some (JDict [(''error'', JStr ''Failed to upload any images'')],
            \<lparr>script = tail, sent = s0 @ map (photo_upload cfg) image_urls, saved = sv\<rparr>)
        else
          (case tail of
             [] \<Rightarrow> None
           | out # tail' \<Rightarrow>
               Some (feed_result cfg out,
                 \<lparr>script = tail',
                  sent = s0 @ map (photo_upload cfg) image_urls
                    @ [feed_post cfg caption (List.map_filter (upload_id cfg) outs)],
                  saved = sv\<rparr>)))"
proof
  assume a: "length outs = length image_urls \<and> list_all (is_dict_result cfg) outs"
  then have l: "length outs = length (map (\<lambda>u. photo_args cfg (JStr u)) image_urls)"
    by simp
  show "post_images_to_page cfg image_urls caption \<lparr>script = outs @ tail, sent = s0, saved = sv\<rparr>
     = (if List.map_filter (upload_id cfg) outs = [] then
          Some (JDict [(''error'', JStr ''Failed to upload any images'')],
            \<lparr>script = tail, sent = s0 @ map (photo_upload cfg) image_urls, saved = sv\<rparr>)
        else
          (case tail of
             [] \<Rightarrow> None
           | out # tail' \<Rightarrow>
               Some (feed_result cfg out,
                 \<lparr>script = tail',
                  sent = s0 @ map (photo_upload cfg) image_urls
                    @ [feed_post cfg caption (List.map_filter (upload_id cfg) outs)],
                  saved = sv\<rparr>)))"
    using upload_loop_all [OF l, of cfg "[]" tail s0 sv] a
    by (simp add: post_images_to_page_def post_feed_def comp_def rest_call_photo rest_call_feed
          send_rest_request_unfold after_call_def feed_result_def envelope_def
          split: list.splits sum.splits)
qed

lemma rest_result_upload_ok: "rest_result cfg (upload_ok i) = Inr (JDict [(''id'', JStr i)])"
  by (simp add: upload_ok_def ex_response_def rest_result_success response_ok_def)

lemma rest_result_upload_bad:
  "rest_result cfg upload_bad
     = Inr (JDict [(''error'', JStr (http_error_msg ((ex_response None [] JNull)\<lparr>status_code := 400, reason := ''Bad Request''\<rparr>))), (''details'', JNull)])"
  by (simp add: upload_bad_def ex_response_def rest_result_http_error response_ok_def)

lemma upload_examples:
  "is_dict_result cfg (upload_ok i)" "is_dict_result cfg upload_bad"
  "upload_id cfg (upload_ok i) = Some (JStr i)" "upload_id cfg upload_bad = None"
  by (simp_all add: is_dict_result_def upload_id_def rest_result_upload_ok rest_result_upload_bad
        dict_get_def)

theorem post_images_to_page_uploads_witness:
  "post_images_to_page cfg_T [''http://h/1.png'', ''http://h/2.png'', ''http://h/3.png''] ''cap''
      (start [upload_ok ''m1'', upload_bad, upload_ok ''m3'', upload_ok ''99_1''])
     = Some (JDict [(''id'', JStr ''99_1'')],
         \<lparr>script = [],
          sent = [photo_upload cfg_T ''http://h/1.png'', photo_upload cfg_T ''http://h/2.png'',
                  photo_upload cfg_T ''http://h/3.png'',
                  \<lparr>call_method = ''POST'',
                   call_url = JStr ''https://graph.facebook.com/v19.0/99/feed'',
                   call_params = Some [(''access_token'', JStr ''PAGE'')],
                   call_data = None,
                   call_json = Some (JDict [(''message'', JStr ''cap''),
                     (''attached_media'', JList [JDict [(''media_fbid'', JStr ''m1'')],
                                                 JDict [(''media_fbid'', JStr ''m3'')]])]),
                   call_headers = None\<rparr>],
          saved = []\<rparr>)
   \<and> post_images_to_page cfg_T [''http://h/1.png'', ''http://h/2.png''] ''cap''
      (start [upload_bad, upload_bad, upload_ok ''99_1''])
     = Some (JDict [(''error'', JStr ''Failed to upload any images'')],
         \<lparr>script = [upload_ok ''99_1''],
          sent = [photo_upload cfg_T ''http://h/1.png'', photo_upload cfg_T ''http://h/2.png''],
          saved = []\<rparr>)
   \<and> photo_upload cfg_T ''http://h/1.png''
     = \<lparr>call_method = ''POST'', call_url = JStr ''https://graph.facebook.com/v19.0/99/photos'',
        call_params = Some [(''access_token'', JStr ''PAGE''), (''url'', JStr ''http://h/1.png''),
                            (''published'', JStr ''false'')],
        call_data = None, call_json = None, call_headers = None\<rparr>"
  using post_images_to_page_uploads [of "[upload_ok ''m1'', upload_bad, upload_ok ''m3'']"
        "[''http://h/1.png'', ''http://h/2.png'', ''http://h/3.png'']" cfg_T "''cap''"
        "[upload_ok ''99_1'']" "[]" "[]"]
    post_images_to_page_uploads [of "[upload_bad, upload_bad]"
        "[''http://h/1.png'', ''http://h/2.png'']" cfg_T "''cap''"
        "[upload_ok ''99_1'']" "[]" "[]"]
  by (simp add: start_def upload_examples map_filter_Cons List.map_filter_simps feed_result_def
        rest_result_upload_ok feed_post_def photo_upload_def absolute_url_def cfg_T_def)

subsection \<open>\<open>post_media_to_page\<close>\<close>

lemma get_mime_type_value:
  "get_mime_type env fp u mt w = Some (Inr v, w1) \<Longrightarrow> v = JNull \<or> (\<exists>d. v = classify d)"
  by (auto simp: get_mime_type_def net_def
        split: if_splits list.splits http_outcome.splits sum.splits)

lemma get_mime_type_world:
  "get_mime_type env fp u mt w = Some (r, w1) \<Longrightarrow> w1 = w \<or> w1 = after_call w (head_call u)"
  by (auto simp: get_mime_type_def net_def after_call_def
        split: if_splits list.splits http_outcome.splits sum.splits)

lemma media_type_of_wants:
  assumes "v = JNull \<or> (\<exists>d. v = classify d)"
  shows "\<exists>t. media_type_of v = Inr t
      \<and> (t = JStr ''video'' \<or> t = JStr ''image'') = wants_upload v
      \<and> (t = JStr ''video'') = (json_lookup v ''file_type'' = Some (JStr ''video''))"
proof (cases "v = JNull")
  case True
  then show ?thesis
    by (simp add: media_type_of_def json_lookup_def wants_upload_def)
next
  case False
  with assms obtain d where "v = classify d" by blast
  then obtain ft where "v = JDict [(''file_type'', JStr ft), (''mime'', d)]"
    using classify_shape [of d] by auto
  then show ?thesis
    by (auto simp: media_type_of_def json_lookup_def wants_upload_def)
qed

lemma media_loop_probe:
  assumes "get_mime_type env None (dict_get m ''url'' JNull) JNull w = Some (Inr mime_info, w1)"
  shows "media_loop cfg env (JDict m # rest_media) ids w =
     (if wants_upload mime_info then
        (case send_rest_request cfg
                (media_upload_args cfg mime_info (dict_get m ''url'' JNull)) w1 of
           None \<Rightarrow> None
         | Some (Inl e, w2) \<Rightarrow> Some (Inl e, w2)
         | Some (Inr response, w2) \<Rightarrow>
             (case collect_id response ids of
                Inl e \<Rightarrow> Some (Inl e, w2)
              | Inr ids' \<Rightarrow> media_loop cfg env rest_media ids' w2))
      else media_loop cfg env rest_media ids w1)"
proof -
  have u: "get_method (JDict m) ''url'' JNull = Inr (dict_get m ''url'' JNull)"
    by (simp add: dict_get_def split: option.splits)
  obtain t where t: "media_type_of mime_info = Inr t"
      "(t = JStr ''video'' \<or> t = JStr ''image'') = wants_upload mime_info"
      "(t = JStr ''video'') = (json_lookup mime_info ''file_type'' = Some (JStr ''video''))"
    using media_type_of_wants [OF get_mime_type_value [OF assms]] by blast
  show ?thesis
    unfolding media_upload_args_def t(3) [symmetric] t(2) [symmetric]
    by (simp only: media_loop.simps u assms t(1) sum.case option.case prod.case)
qed

lemma collect_id_error: "py_in ''error'' v = Inr True \<Longrightarrow> collect_id v ids = Inr ids"
  by (simp add: collect_id_def)

lemma passed_over_cases:
  assumes "passed_over cfg env media w = Some w'"
  obtains (skipped) m mime_info where "media = JDict m"
      "get_mime_type env None (dict_get m ''url'' JNull) JNull w = Some (Inr mime_info, w')"
      "\<not> wants_upload mime_info"
  | (failed) m mime_info w1 out outs where "media = JDict m"
      "get_mime_type env None (dict_get m ''url'' JNull) JNull w = Some (Inr mime_info, w1)"
      "wants_upload mime_info" "script w1 = out # outs" "is_error_response cfg out"
      "w' = after_call w1 (rest_call cfg (media_upload_args cfg mime_info (dict_get m ''url'' JNull)))"
  using assms
  by (auto simp: passed_over_def split: json.splits option.splits sum.splits if_splits list.splits)

lemma passed_over_step:
  assumes "passed_over cfg env media w = Some w'"
  shows "media_loop cfg env (media # rest_media) ids w = media_loop cfg env rest_media ids w'"
  using assms
proof (cases rule: passed_over_cases)
  case (skipped m mime_info)
  then show ?thesis by (simp only: media_loop_probe [OF skipped(2)] if_False)
next
  case (failed m mime_info w1 out outs)
  from failed(5) obtain v where v: "rest_result cfg out = Inr v" "py_in ''error'' v = Inr True"
    by (auto simp: is_error_response_def split: sum.splits)
  show ?thesis
    unfolding failed(1) media_loop_probe [OF failed(2)]
    by (simp add: failed send_rest_request_unfold v collect_id_error del: media_loop.simps)
qed

lemma passed_over_calls:
  assumes "passed_over cfg env media w = Some w'"
  shows "\<exists>cs. sent w' = sent w @ cs \<and> no_body cs"
  using assms
proof (cases rule: passed_over_cases)
  case (skipped m mime_info)
  from get_mime_type_world [OF skipped(2)] show ?thesis
    by (auto simp: after_call_def head_call_def no_body_def)
next
  case (failed m mime_info w1 out outs)
  from get_mime_type_world [OF failed(2)] failed(6) show ?thesis
    by (auto simp: after_call_def head_call_def no_body_def rest_call_def media_upload_args_def
          media_video_args_def photo_args_def rest_def)
qed

lemma all_passed_over_loop:
  assumes "all_passed_over cfg env media_urls w = Some w'"
  shows "media_loop cfg env media_urls ids w = Some (Inr ids, w')
     \<and> (\<exists>cs. sent w' = sent w @ cs \<and> no_body cs)"
  using assms
proof (induction media_urls arbitrary: w)
  case Nil
  then show ?case by (simp add: no_body_def)
next
  case (Cons media rest_media)
  from Cons.prems obtain w1 where p: "passed_over cfg env media w = Some w1"
      and r: "all_passed_over cfg env rest_media w1 = Some w'"
    by (auto split: option.splits)
  from Cons.IH [OF r] passed_over_calls [OF p] have "\<exists>cs. sent w' = sent w @ cs \<and> no_body cs"
    by (auto simp: no_body_def)
  with Cons.IH [OF r] show ?case
    by (simp only: passed_over_step [OF p])
qed

text \<open>
  C10. An entry whose probe result asks for no upload (its \<open>file_type\<close> is neither
  \<open>image\<close> nor \<open>video\<close>, or the result is \<open>None\<close>) is skipped: the loop goes on
  with the other entries and the same identifiers, from the world that the probe left,
  where the probe is the only call that can have been added. When every entry is passed
  over (skipped, or uploaded with a response that contains \<open>error\<close>),
  \<open>post_media_to_page\<close> returns \<open>{"error": "No valid media uploaded"}\<close>; none of the
  calls it has made carries a JSON body, so none of them is the feed post.
\<close>

theorem post_media_to_page_skips:
  "(get_mime_type env None (dict_get m ''url'' JNull) JNull w = Some (Inr mime_info, w1)
      \<and> \<not> wants_upload mime_info
    \<longrightarrow> media_loop cfg env (JDict m # rest_media) ids w = media_loop cfg env rest_media ids w1
        \<and> (sent w1 = sent w \<or> sent w1 = sent w @ [head_call (dict_get m ''url'' JNull)]))
   \<and> (all_passed_over cfg env media_urls w = Some w'
    \<longrightarrow> post_media_to_page cfg env caption media_urls w
          = Some (JDict [(''error'', JStr ''No valid media uploaded'')], w')
        \<and> no_body (new_calls w w')
        \<and> rest_call cfg (feed_args cfg caption fed) \<notin> set (new_calls w w'))"
proof (intro conjI impI)
  assume a: "get_mime_type env None (dict_get m ''url'' JNull) JNull w = Some (Inr mime_info, w1)
      \<and> \<not> wants_upload mime_info"
  then show "media_loop cfg env (JDict m # rest_media) ids w = media_loop cfg env rest_media ids w1"
    by (simp only: media_loop_probe [of env m w mime_info w1] if_False)
  from a get_mime_type_world [of env None "dict_get m ''url'' JNull" JNull w "Inr mime_info" w1]
  show "sent w1 = sent w \<or> sent w1 = sent w @ [head_call (dict_get m ''url'' JNull)]"
    by (auto simp: after_call_def)
next
  assume a: "all_passed_over cfg env media_urls w = Some w'"
  from all_passed_over_loop [OF a, of "[]"]
  show "post_media_to_page cfg env caption media_urls w
          = Some (JDict [(''error'', JStr ''No valid media uploaded'')], w')"
    by (simp add: post_media_to_page_def post_feed_def)
  from all_passed_over_loop [OF a, of "[]"] show nb: "no_body (new_calls w w')"
    by (auto simp: new_calls_def)
  have "call_json (rest_call cfg (feed_args cfg caption fed)) \<noteq> None"
    by (simp add: rest_call_def feed_args_def rest_def)
  with nb show "rest_call cfg (feed_args cfg caption fed) \<notin> set (new_calls w w')"
    by (auto simp: no_body_def list_all_iff)
qed

lemma classify_pdf: "classify (JStr ''application/pdf'') = JDict [(''file_type'', JStr ''document''), (''mime'', JStr ''application/pdf'')]"
  by (simp add: classify_def image_types_def document_types_def)

lemma classify_png: "classify (JStr ''image/png'') = JDict [(''file_type'', JStr ''image''), (''mime'', JStr ''image/png'')]"
  by (simp add: classify_def image_types_def)

lemma classify_null: "classify JNull = JDict [(''file_type'', JStr ''unknown''), (''mime'', JNull)]"
  by (simp add: classify_def image_types_def document_types_def audio_types_def video_types_def)

lemma ex_media_passed:
  "all_passed_over cfg_T ex_env ex_media (start ex_media_script)
     = Some \<lparr>script = [], sent = ex_media_calls, saved = []\<rparr>"
  by (simp add: ex_media_def ex_media_script_def start_def passed_over_def dict_get_def
        get_mime_type_def net_def head_pdf_def ex_response_def opt_str_def classify_pdf classify_png
        classify_null wants_upload_def json_lookup_def after_call_def media_upload_args_def
        is_error_response_def rest_result_upload_bad ex_media_calls_def)

theorem post_media_to_page_skips_witness:
  "media_loop cfg_T ex_env ex_media [] (start ex_media_script)
     = media_loop cfg_T ex_env (tl ex_media) []
         \<lparr>script = tl ex_media_script, sent = [head_call (JStr ''http://h/doc.pdf'')], saved = []\<rparr>
   \<and> post_media_to_page cfg_T ex_env ''cap'' ex_media (start ex_media_script)
     = Some (JDict [(''error'', JStr ''No valid media uploaded'')],
         \<lparr>script = [], sent = ex_media_calls, saved = []\<rparr>)
   \<and> rest_call cfg_T (feed_args cfg_T ''cap'' []) \<notin> set ex_media_calls"
proof -
  have probe: "get_mime_type ex_env None (dict_get [(''url'', JStr ''http://h/doc.pdf'')] ''url'' JNull)
       JNull (start ex_media_script)
     = Some (Inr (classify (JStr ''application/pdf'')),
         \<lparr>script = tl ex_media_script, sent = [head_call (JStr ''http://h/doc.pdf'')], saved = []\<rparr>)
     \<and> \<not> wants_upload (classify (JStr ''application/pdf''))"
    by (simp add: ex_media_script_def start_def dict_get_def get_mime_type_def net_def head_pdf_def
          ex_response_def opt_str_def classify_pdf wants_upload_def json_lookup_def)
  from post_media_to_page_skips [THEN conjunct1, rule_format, OF probe, of cfg_T "tl ex_media" "[]"]
  have one: "media_loop cfg_T ex_env ex_media [] (start ex_media_script)
     = media_loop cfg_T ex_env (tl ex_media) []
         \<lparr>script = tl ex_media_script, sent = [head_call (JStr ''http://h/doc.pdf'')], saved = []\<rparr>"
    by (simp add: ex_media_def del: media_loop.simps)
  from post_media_to_page_skips [THEN conjunct2, rule_format, OF ex_media_passed, of "''cap''" "[]"]
  have two: "post_media_to_page cfg_T ex_env ''cap'' ex_media (start ex_media_script)
     = Some (JDict [(''error'', JStr ''No valid media uploaded'')],
         \<lparr>script = [], sent = ex_media_calls, saved = []\<rparr>)
     \<and> rest_call cfg_T (feed_args cfg_T ''cap'' []) \<notin> set ex_media_calls"
    by (simp add: new_calls_def start_def)
  from one two show ?thesis by blast
qed

subsection \<open>Credentials\<close>

lemma growsI: "sent w' = sent w @ cs \<Longrightarrow> list_all P cs \<Longrightarrow> grows P w w'"
  by (simp add: grows_def new_calls_def)

lemma growsD: "grows P w w' \<Longrightarrow> sent w' = sent w @ new_calls w w' \<and> list_all P (new_calls w w')"
  by (metis append_take_drop_id grows_def new_calls_def)

lemma grows_refl: "grows P w w"
  by (simp add: grows_def new_calls_def)

lemma grows_trans: "grows P w w1 \<Longrightarrow> grows P w1 w2 \<Longrightarrow> grows P w w2"
proof -
  assume a: "grows P w w1" and b: "grows P w1 w2"
  from growsD [OF a] growsD [OF b]
  have "sent w2 = sent w @ (new_calls w w1 @ new_calls w1 w2)"
    "list_all P (new_calls w w1 @ new_calls w1 w2)" by simp_all
  then show ?thesis by (rule growsI)
qed

lemma send_rest_request_sent:
  "send_rest_request cfg a w = Some (r, w') \<Longrightarrow> new_calls w w' = [rest_call cfg a]"
  by (auto simp: send_rest_request_unfold after_call_def new_calls_def split: list.splits)

lemma send_rest_request_grows:
  "send_rest_request cfg a w = Some (r, w') \<Longrightarrow> P (rest_call cfg a) \<Longrightarrow> grows P w w'"
  by (auto simp: send_rest_request_unfold after_call_def intro!: growsI split: list.splits)

lemma upload_loop_grows:
  "upload_loop cfg as ids w = Some (r, w') \<Longrightarrow> list_all (\<lambda>a. P (rest_call cfg a)) as \<Longrightarrow> grows P w w'"
proof (induction as arbitrary: ids w)
  case Nil
  then show ?case by (simp add: grows_refl)
next
  case (Cons a as)
  from Cons.prems(1) obtain r1 w1 where s: "send_rest_request cfg a w = Some (r1, w1)"
    by (auto split: option.splits)
  from Cons.prems(2) have g1: "grows P w w1"
    using send_rest_request_grows [OF s] by simp
  show ?case
  proof (cases r1)
    case (Inl e)
    with Cons.prems(1) s g1 show ?thesis by simp
  next
    case (Inr response)
    show ?thesis
    proof (cases "collect_id response ids")
      case (Inl e)
      with Cons.prems(1) s Inr g1 show ?thesis by simp
    next
      case (Inr ids')
      with Cons.prems s \<open>r1 = Inr response\<close> have "upload_loop cfg as ids' w1 = Some (r, w')"
        by simp
      from Cons.IH [OF this] Cons.prems(2) have "grows P w1 w'" by simp
      with g1 show ?thesis by (rule grows_trans)
    qed
  qed
qed

lemma post_feed_grows:
  assumes "post_feed cfg msg caption looped = Some (r, w')"
    and "\<And>x w1. looped = Some (x, w1) \<Longrightarrow> grows P w w1"
    and "\<And>ids. P (rest_call cfg (feed_args cfg caption ids))"
  shows "grows P w w'"
proof -
  from assms(1) obtain x w1 where l: "looped = Some (x, w1)"
    by (auto simp: post_feed_def split: option.splits)
  note g1 = assms(2) [OF l]
  show ?thesis
  proof (cases x)
    case (Inl e)
    with assms(1) l g1 show ?thesis by (simp add: post_feed_def)
  next
    case (Inr ids)
    show ?thesis
    proof (cases "ids = []")
      case True
      with assms(1) l Inr g1 show ?thesis by (simp add: post_feed_def)
    next
      case False
      with assms(1) l Inr obtain r2 where
        "send_rest_request cfg (feed_args cfg caption ids) w1 = Some (r2, w')"
        by (auto simp: post_feed_def split: option.splits sum.splits)
      from send_rest_request_grows [OF this, of P] assms(3) have "grows P w1 w'" by simp
      with g1 show ?thesis by (rule grows_trans)
    qed
  qed
qed

lemma credentials_simps:
  "credentials (rest_call cfg (photo_args cfg u)) = [page_token cfg]"
  "credentials (rest_call cfg (video_args cfg t v)) = [page_token cfg]"
  "credentials (rest_call cfg (media_video_args cfg u)) = [page_token cfg]"
  "credentials (rest_call cfg (feed_args cfg caption ids)) = [page_token cfg]"
  by (simp_all add: credentials_def rest_call_def rest_def opt_list_def page_token_def
        photo_args_def video_args_def media_video_args_def feed_args_def)

lemma post_images_credentials:
  assumes "post_images_to_page cfg image_urls caption w = Some (r, w')"
  shows "grows (\<lambda>c. credentials c = [page_token cfg]) w w'"
  using assms unfolding post_images_to_page_def
  by (rule post_feed_grows)
     (auto intro!: upload_loop_grows simp: credentials_simps list_all_iff)

lemma post_videos_credentials:
  assumes "post_videos_to_page cfg title caption video_urls w = Some (r, w')"
  shows "grows (\<lambda>c. credentials c = [page_token cfg]) w w'"
  using assms unfolding post_videos_to_page_def
  by (rule post_feed_grows)
     (auto intro!: upload_loop_grows simp: credentials_simps list_all_iff)

lemma get_mime_type_grows:
  assumes "get_mime_type env fp u mt w = Some (x, w1)"
  shows "grows (probe_or_page cfg) w w1"
proof -
  from get_mime_type_world [OF assms] show ?thesis
  proof
    assume "w1 = w" then show ?thesis by (simp add: grows_refl)
  next
    assume "w1 = after_call w (head_call u)"
    then show ?thesis
      by (auto intro!: growsI simp: after_call_def probe_or_page_def head_call_def)
  qed
qed

lemma media_loop_grows:
  "media_loop cfg env media_urls ids w = Some (r, w') \<Longrightarrow> grows (probe_or_page cfg) w w'"
proof (induction media_urls arbitrary: ids w)
  case Nil
  then show ?case by (simp add: grows_refl)
next
  case (Cons media rest_media)
  show ?case
  proof (cases "get_method media ''url'' JNull")
    case (Inl e)
    with Cons.prems show ?thesis by (simp add: grows_refl)
  next
    case u: (Inr media_url)
    with Cons.prems obtain x w1 where
      p: "get_mime_type env None media_url JNull w = Some (x, w1)"
      by (auto split: option.splits)
    note g1 = get_mime_type_grows [OF p, of cfg]
    show ?thesis
    proof (cases x)
      case (Inl e)
      with Cons.prems u p g1 show ?thesis by simp
    next
      case mi: (Inr mime_info)
      show ?thesis
      proof (cases "media_type_of mime_info")
        case (Inl e)
        with Cons.prems u p mi g1 show ?thesis by simp
      next
        case t: (Inr media_type)
        show ?thesis
        proof (cases "media_type = JStr ''video'' \<or> media_type = JStr ''image''")
          case False
          with Cons.prems u p mi t have "media_loop cfg env rest_media ids w1 = Some (r, w')"
            by simp
          from g1 Cons.IH [OF this] show ?thesis by (rule grows_trans)
        next
          case True
          let ?a = "if media_type = JStr ''video'' then media_video_args cfg media_url
                    else photo_args cfg media_url"
          from Cons.prems u p mi t True obtain r2 w2 where
            s: "send_rest_request cfg ?a w1 = Some (r2, w2)"
            by (auto split: option.splits)
          have "probe_or_page cfg (rest_call cfg ?a)"
            by (simp add: probe_or_page_def credentials_simps)
          from send_rest_request_grows [OF s, of "probe_or_page cfg", OF this] g1
          have g2: "grows (probe_or_page cfg) w w2" by (blast intro: grows_trans)
          show ?thesis
          proof (cases r2)
            case (Inl e)
            with Cons.prems u p mi t True s g2 show ?thesis by simp
          next
            case resp: (Inr response)
            show ?thesis
            proof (cases "collect_id response ids")
              case (Inl e)
              with Cons.prems u p mi t True s resp g2 show ?thesis by simp
            next
              case (Inr ids')
              with Cons.prems u p mi t True s resp
              have "media_loop cfg env rest_media ids' w2 = Some (r, w')" by simp
              from g2 Cons.IH [OF this] show ?thesis by (rule grows_trans)
            qed
          qed
        qed
      qed
    qed
  qed
qed

lemma post_media_credentials:
  assumes "post_media_to_page cfg env caption media_urls w = Some (r, w')"
  shows "grows (probe_or_page cfg) w w'"
  using assms unfolding post_media_to_page_def
  by (rule post_feed_grows)
     (auto intro: media_loop_grows simp: credentials_simps probe_or_page_def)

lemma credentials_follow: "credentials (rest_call cfg (pages_args u [])) = []"
  by (simp add: credentials_def rest_call_def rest_def opt_list_def pages_args_def)

lemma pages_loop_calls:
  "pages_loop cfg endpoint params acc w = Some (r, w') \<Longrightarrow>
   \<exists>cs. sent w' = sent w @ rest_call cfg (pages_args endpoint params) # cs
      \<and> list_all (\<lambda>c. credentials c = []) cs"
proof (induction cfg endpoint params acc w rule: pages_loop.induct)
  case (1 cfg endpoint params all_pages w)
  from "1.prems" obtain res w1 where
    s: "send_rest_request cfg (pages_args endpoint params) w = Some (res, w1)"
    by (subst (asm) pages_loop.simps) (auto split: option.splits)
  then have s1: "sent w1 = sent w @ [rest_call cfg (pages_args endpoint params)]"
    by (auto simp: send_rest_request_unfold after_call_def split: list.splits)
  show ?case
  proof (cases "\<exists>response pages u. res = Inr response
      \<and> pages_step response all_pages = Inr (Continue pages (JStr u))")
    case True
    then obtain response pages u where c: "res = Inr response"
        "pages_step response all_pages = Inr (Continue pages (JStr u))" by blast
    with "1.prems" s have "pages_loop cfg u [] pages w1 = Some (r, w')"
      by (subst (asm) pages_loop.simps) simp
    from "1.IH" [OF s refl c(1) c(2) refl refl this] s1 show ?thesis
      by (auto simp: credentials_follow)
  next
    case False
    with "1.prems" s have "w' = w1"
      by (subst (asm) pages_loop.simps)
         (auto split: sum.splits page_step.splits json.splits)
    with s1 show ?thesis by simp
  qed
qed

lemma credentials_args:
  "credentials (rest_call cfg (register_session_args cfg webhook_url)) = [app_token cfg]"
  "credentials (rest_call cfg (send_text_message_args cfg recipient_id message)) = [page_token cfg]"
  "credentials (rest_call cfg (send_media_args cfg recipient_id media_url media_type)) = [page_token cfg]"
  "credentials (rest_call cfg (post_message_to_page_args cfg message)) = [page_token cfg]"
  "credentials (rest_call cfg (comment_on_post_args cfg post_id message)) = [page_token cfg]"
  "credentials (rest_call cfg (reply_to_comment_args cfg comment_id message)) = [page_token cfg]"
  "credentials (rest_call cfg (reply_to_comment_with_attachment_args cfg comment_id attachment_url)) = [page_token cfg]"
  "credentials (rest_call cfg (update_comment_args cfg comment_id message)) = [page_token cfg]"
  "credentials (rest_call cfg (like_comment_args cfg comment_id)) = [page_token cfg]"
  "credentials (rest_call cfg (get_user_info_args cfg flds)) = [page_token cfg]"
  "credentials (rest_call cfg (get_page_details_args cfg flds)) = [page_token cfg]"
  "credentials (rest_call cfg (get_page_posts_args cfg limit)) = [page_token cfg]"
  "credentials (rest_call cfg (get_single_post_args cfg post_id)) = [page_token cfg]"
  "credentials (rest_call cfg (get_post_comments_args cfg post_id limit)) = [page_token cfg]"
  "credentials (rest_call cfg (get_reactions_args cfg post_id)) = [page_token cfg]"
  "credentials (rest_call cfg (share_facebook_post_args cfg post_id)) = [page_token cfg]"
  by (simp_all add: credentials_def rest_call_def rest_def opt_list_def page_token_def app_token_def
        register_session_args_def send_text_message_args_def send_media_args_def post_message_to_page_args_def comment_on_post_args_def reply_to_comment_args_def reply_to_comment_with_attachment_args_def update_comment_args_def like_comment_args_def get_user_info_args_def get_page_details_args_def get_page_posts_args_def get_single_post_args_def get_post_comments_args_def get_reactions_args_def share_facebook_post_args_def)

lemma single_call:
  assumes "send_rest_request cfg a w = Some (r, w')" "credentials (rest_call cfg a) = [tok]"
  shows "map credentials (new_calls w w') = [[tok]]"
  using send_rest_request_sent [OF assms(1)] assms(2) by simp

lemma share_facebook_post_call:
  assumes "share_facebook_post cfg post_id w = Some (r, w')"
  shows "\<exists>r0. send_rest_request cfg (share_facebook_post_args cfg post_id) w = Some (r0, w')"
  using assms
  by (auto simp: share_facebook_post_def split: option.splits sum.splits)

text \<open>
  C9 (as amended). Each operation that sends one request attaches exactly one credential
  to it, in the query parameters or in the form data: \<open>register_session\<close> the
  application token \<open>app_id|app_secret\<close>, every other one the page token. Every request
  of \<open>post_images_to_page\<close> and \<open>post_videos_to_page\<close>, and every request of
  \<open>post_media_to_page\<close> that is not a \<open>HEAD\<close> probe, carries exactly the page token.
  The first request of \<open>list_all_pages\<close> carries exactly the page token; the requests
  that follow a \<open>paging.next\<close> URL carry no credential of their own.
\<close>

theorem operations_attach_credentials:
  "(register_session cfg webhook_url w = Some (r, w')
      \<longrightarrow> map credentials (new_calls w w') = [[app_token cfg]])
   \<and> (send_text_message cfg recipient_id message w = Some (r, w')
      \<longrightarrow> map credentials (new_calls w w') = [[page_token cfg]])
   \<and> (send_media cfg recipient_id media_url media_type w = Some (r, w')
      \<longrightarrow> map credentials (new_calls w w') = [[page_token cfg]])
   \<and> (post_message_to_page cfg message w = Some (r, w')
      \<longrightarrow> map credentials (new_calls w w') = [[page_token cfg]])
   \<and> (comment_on_post cfg post_id message w = Some (r, w')
      \<longrightarrow> map credentials (new_calls w w') = [[page_token cfg]])
   \<and> (reply_to_comment cfg comment_id message w = Some (r, w')
      \<longrightarrow> map credentials (new_calls w w') = [[page_token cfg]])
   \<and> (reply_to_comment_with_attachment cfg comment_id attachment_url w = Some (r, w')
      \<longrightarrow> map credentials (new_calls w w') = [[page_token cfg]])
   \<and> (update_comment cfg comment_id message w = Some (r, w')
      \<longrightarrow> map credentials (new_calls w w') = [[page_token cfg]])
   \<and> (like_comment cfg comment_id w = Some (r, w')
      \<longrightarrow> map credentials (new_calls w w') = [[page_token cfg]])
   \<and> (get_user_info cfg flds w = Some (r, w')
      \<longrightarrow> map credentials (new_calls w w') = [[page_token cfg]])
   \<and> (get_page_details cfg flds w = Some (r, w')
      \<longrightarrow> map credentials (new_calls w w') = [[page_token cfg]])
   \<and> (get_page_posts cfg limit w = Some (r, w')
      \<longrightarrow> map credentials (new_calls w w') = [[page_token cfg]])
   \<and> (get_single_post cfg post_id w = Some (r, w')
      \<longrightarrow> map credentials (new_calls w w') = [[page_token cfg]])
   \<and> (get_post_comments cfg post_id limit w = Some (r, w')
      \<longrightarrow> map credentials (new_calls w w') = [[page_token cfg]])
   \<and> (get_reactions cfg post_id w = Some (r, w')
      \<longrightarrow> map credentials (new_calls w w') = [[page_token cfg]])
   \<and> (share_facebook_post cfg post_id w = Some (r, w')
      \<longrightarrow> map credentials (new_calls w w') = [[page_token cfg]])
   \<and> (post_images_to_page cfg image_urls caption w = Some (j, w')
      \<longrightarrow> all_carry (page_token cfg) (new_calls w w'))
   \<and> (post_videos_to_page cfg title caption video_urls w = Some (j, w')
      \<longrightarrow> all_carry (page_token cfg) (new_calls w w'))
   \<and> (post_media_to_page cfg env caption media_urls w = Some (j, w')
      \<longrightarrow> all_carry (page_token cfg) (graph_calls (new_calls w w')))
   \<and> (list_all_pages cfg limit w = Some (j, w')
      \<longrightarrow> (\<exists>c cs. new_calls w w' = c # cs \<and> credentials c = [page_token cfg]
            \<and> list_all (\<lambda>c. credentials c = []) cs))"
proof (intro conjI)
  show "register_session cfg webhook_url w = Some (r, w')
      \<longrightarrow> map credentials (new_calls w w') = [[app_token cfg]]"
    by (auto simp: register_session_def credentials_args intro: single_call)
  show "send_text_message cfg recipient_id message w = Some (r, w')
      \<longrightarrow> map credentials (new_calls w w') = [[page_token cfg]]"
    by (auto simp: send_text_message_def credentials_args intro: single_call)
  show "send_media cfg recipient_id media_url media_type w = Some (r, w')
      \<longrightarrow> map credentials (new_calls w w') = [[page_token cfg]]"
    by (auto simp: send_media_def credentials_args intro: single_call)
  show "post_message_to_page cfg message w = Some (r, w')
      \<longrightarrow> map credentials (new_calls w w') = [[page_token cfg]]"
    by (auto simp: post_message_to_page_def credentials_args intro: single_call)
  show "comment_on_post cfg post_id message w = Some (r, w')
      \<longrightarrow> map credentials (new_calls w w') = [[page_token cfg]]"
    by (auto simp: comment_on_post_def credentials_args intro: single_call)
  show "reply_to_comment cfg comment_id message w = Some (r, w')
      \<longrightarrow> map credentials (new_calls w w') = [[page_token cfg]]"
    by (auto simp: reply_to_comment_def credentials_args intro: single_call)
  show "reply_to_comment_with_attachment cfg comment_id attachment_url w = Some (r, w')
      \<longrightarrow> map credentials (new_calls w w') = [[page_token cfg]]"
    by (auto simp: reply_to_comment_with_attachment_def credentials_args intro: single_call)
  show "update_comment cfg comment_id message w = Some (r, w')
      \<longrightarrow> map credentials (new_calls w w') = [[page_token cfg]]"
    by (auto simp: update_comment_def credentials_args intro: single_call)
  show "like_comment cfg comment_id w = Some (r, w')
      \<longrightarrow> map credentials (new_calls w w') = [[page_token cfg]]"
    by (auto simp: like_comment_def credentials_args intro: single_call)
  show "get_user_info cfg flds w = Some (r, w')
      \<longrightarrow> map credentials (new_calls w w') = [[page_token cfg]]"
    by (auto simp: get_user_info_def credentials_args intro: single_call)
  show "get_page_details cfg flds w = Some (r, w')
      \<longrightarrow> map credentials (new_calls w w') = [[page_token cfg]]"
    by (auto simp: get_page_details_def credentials_args intro: single_call)
  show "get_page_posts cfg limit w = Some (r, w')
      \<longrightarrow> map credentials (new_calls w w') = [[page_token cfg]]"
    by (auto simp: get_page_posts_def credentials_args intro: single_call)
  show "get_single_post cfg post_id w = Some (r, w')
      \<longrightarrow> map credentials (new_calls w w') = [[page_token cfg]]"
    by (auto simp: get_single_post_def credentials_args intro: single_call)
  show "get_post_comments cfg post_id limit w = Some (r, w')
      \<longrightarrow> map credentials (new_calls w w') = [[page_token cfg]]"
    by (auto simp: get_post_comments_def credentials_args intro: single_call)
  show "get_reactions cfg post_id w = Some (r, w')
      \<longrightarrow> map credentials (new_calls w w') = [[page_token cfg]]"
    by (auto simp: get_reactions_def credentials_args intro: single_call)
  show "share_facebook_post cfg post_id w = Some (r, w')
      \<longrightarrow> map credentials (new_calls w w') = [[page_token cfg]]"
    by (auto simp: credentials_args dest!: share_facebook_post_call intro: single_call)
  show "post_images_to_page cfg image_urls caption w = Some (j, w')
      \<longrightarrow> all_carry (page_token cfg) (new_calls w w')"
    using post_images_credentials [of cfg image_urls caption w j w']
    by (auto simp: all_carry_def dest: growsD)
  show "post_videos_to_page cfg title caption video_urls w = Some (j, w')
      \<longrightarrow> all_carry (page_token cfg) (new_calls w w')"
    using post_videos_credentials [of cfg title caption video_urls w j w']
    by (auto simp: all_carry_def dest: growsD)
  show "post_media_to_page cfg env caption media_urls w = Some (j, w')
      \<longrightarrow> all_carry (page_token cfg) (graph_calls (new_calls w w'))"
  proof
    assume "post_media_to_page cfg env caption media_urls w = Some (j, w')"
    from growsD [OF post_media_credentials [OF this]]
    have "\<forall>c\<in>set (new_calls w w'). probe_or_page cfg c"
      by (simp add: list_all_iff)
    then have "\<forall>c\<in>set (graph_calls (new_calls w w')). credentials c = [page_token cfg]"
      unfolding graph_calls_def probe_or_page_def by fastforce
    then show "all_carry (page_token cfg) (graph_calls (new_calls w w'))"
      by (simp add: all_carry_def list_all_iff)
  qed
  show "list_all_pages cfg limit w = Some (j, w')
      \<longrightarrow> (\<exists>c cs. new_calls w w' = c # cs \<and> credentials c = [page_token cfg]
            \<and> list_all (\<lambda>c. credentials c = []) cs)"
  proof
    assume "list_all_pages cfg limit w = Some (j, w')"
    then obtain r0 where "pages_loop cfg ''me/accounts'' (first_params cfg limit) [] w = Some (r0, w')"
      by (auto simp: list_all_pages_def first_params_def split: option.splits sum.splits)
    from pages_loop_calls [OF this] obtain cs where
      "sent w' = sent w @ rest_call cfg (pages_args ''me/accounts'' (first_params cfg limit)) # cs"
      "list_all (\<lambda>c. credentials c = []) cs" by blast
    moreover have "credentials (rest_call cfg (pages_args ''me/accounts'' (first_params cfg limit)))
        = [page_token cfg]"
      by (simp add: credentials_def rest_call_def rest_def opt_list_def pages_args_def
            first_params_def page_token_def)
    ultimately show "\<exists>c cs. new_calls w w' = c # cs \<and> credentials c = [page_token cfg]
            \<and> list_all (\<lambda>c. credentials c = []) cs"
      by (simp add: new_calls_def)
  qed
qed

text \<open>
  The claim C9 as it is written fails for \<open>list_all_pages\<close>: with two pages, the second
  request is sent with empty parameters, so the client attaches no token to it.
\<close>

theorem list_all_pages_follow_up_bare:
  "map_option (map credentials \<circ> sent \<circ> snd) (list_all_pages cfg_T 100 (start [page_one, page_two]))
     = Some [[JStr ''PAGE''], []]"
proof -
  have "pages_loop cfg_T ''me/accounts'' (first_params cfg_T 100) []
          \<lparr>script = [page_one] @ page_two # [], sent = [], saved = []\<rparr>
     = Some (Inr (JList ([] @ concat (map fst [([JDict [(''id'', JStr ''p1'')]], next_url)])
                   @ [JDict [(''id'', JStr ''p2'')]])),
         \<lparr>script = [],
          sent = [] @ follow_calls cfg_T ''me/accounts'' (first_params cfg_T 100)
                        [([JDict [(''id'', JStr ''p1'')]], next_url)],
          saved = []\<rparr>)"
    by (rule pages_loop_chain_last [OF page_one_linked page_two_last]) simp
  then show ?thesis
    by (simp add: list_all_pages_def start_def first_params_def credentials_def rest_call_def
          rest_def opt_list_def pages_args_def cfg_T_def)
qed

theorem operations_attach_credentials_witness:
  "map credentials (new_calls hook_world
          (hook_world' (register_session_args cfg_T ''https://agent.example/hook''))) = [[JStr ''42|s3'']]
   \<and> map credentials (new_calls hook_world (hook_world' (like_comment_args cfg_T ''c1'')))
       = [[JStr ''PAGE'']]
   \<and> all_carry (JStr ''PAGE'')
        (new_calls (start [upload_ok ''m1'', upload_bad, upload_ok ''99_1'']) posted_world)
   \<and> (\<exists>c cs. new_calls (start [page_one, page_two]) paged_world = c # cs
         \<and> credentials c = [JStr ''PAGE''] \<and> list_all (\<lambda>c. credentials c = []) cs)"
proof (intro conjI)
  have reg: "register_session cfg_T ''https://agent.example/hook'' hook_world
     = Some (Inr (JDict [(''id'', JStr ''done'')]),
             hook_world' (register_session_args cfg_T ''https://agent.example/hook''))"
    by (simp add: register_session_def send_rest_request_unfold hook_world_def hook_world'_def
          start_def after_call_def rest_result_upload_ok)
  from operations_attach_credentials [THEN conjunct1, rule_format, OF reg]
  show "map credentials (new_calls hook_world
          (hook_world' (register_session_args cfg_T ''https://agent.example/hook''))) = [[JStr ''42|s3'']]"
    by (simp add: app_token_def cfg_T_def)
  have like: "like_comment cfg_T ''c1'' hook_world
     = Some (Inr (JDict [(''id'', JStr ''done'')]), hook_world' (like_comment_args cfg_T ''c1''))"
    by (simp add: like_comment_def send_rest_request_unfold hook_world_def hook_world'_def
          start_def after_call_def rest_result_upload_ok)
  from operations_attach_credentials
    [THEN conjunct2, THEN conjunct2, THEN conjunct2, THEN conjunct2, THEN conjunct2,
     THEN conjunct2, THEN conjunct2, THEN conjunct2,
     THEN conjunct1, rule_format, OF like]
  show "map credentials (new_calls hook_world (hook_world' (like_comment_args cfg_T ''c1'')))
       = [[JStr ''PAGE'']]"
    by (simp add: page_token_def cfg_T_def)
  have img: "post_images_to_page cfg_T [''http://h/1.png'', ''http://h/2.png''] ''cap''
       (start [upload_ok ''m1'', upload_bad, upload_ok ''99_1''])
     = Some (JDict [(''id'', JStr ''99_1'')], posted_world)"
    by (simp add: post_images_to_page_def post_feed_def send_rest_request_unfold start_def
          after_call_def rest_result_upload_ok rest_result_upload_bad collect_id_dict
          posted_world_def photo_calls_def dict_get_def)
  from operations_attach_credentials
    [THEN conjunct2, THEN conjunct2, THEN conjunct2, THEN conjunct2, THEN conjunct2,
     THEN conjunct2, THEN conjunct2, THEN conjunct2, THEN conjunct2, THEN conjunct2,
     THEN conjunct2, THEN conjunct2, THEN conjunct2, THEN conjunct2, THEN conjunct2,
     THEN conjunct2,
     THEN conjunct1, rule_format, OF img]
  show "all_carry (JStr ''PAGE'')
        (new_calls (start [upload_ok ''m1'', upload_bad, upload_ok ''99_1'']) posted_world)"
    by (simp add: page_token_def cfg_T_def)
  have "pages_loop cfg_T ''me/accounts'' (first_params cfg_T 100) []
          \<lparr>script = [page_one] @ page_two # [], sent = [], saved = []\<rparr>
     = Some (Inr (JList ([] @ concat (map fst [([JDict [(''id'', JStr ''p1'')]], next_url)])
                   @ [JDict [(''id'', JStr ''p2'')]])),
         \<lparr>script = [],
          sent = [] @ follow_calls cfg_T ''me/accounts'' (first_params cfg_T 100)
                        [([JDict [(''id'', JStr ''p1'')]], next_url)],
          saved = []\<rparr>)"
    by (rule pages_loop_chain_last [OF page_one_linked page_two_last]) simp
  then have pg: "list_all_pages cfg_T 100 (start [page_one, page_two])
     = Some (JList [JDict [(''id'', JStr ''p1'')], JDict [(''id'', JStr ''p2'')]], paged_world)"
    by (simp add: list_all_pages_def start_def first_params_def paged_world_def)
  from operations_attach_credentials
    [THEN conjunct2, THEN conjunct2, THEN conjunct2, THEN conjunct2, THEN conjunct2,
     THEN conjunct2, THEN conjunct2, THEN conjunct2, THEN conjunct2, THEN conjunct2,
     THEN conjunct2, THEN conjunct2, THEN conjunct2, THEN conjunct2, THEN conjunct2,
     THEN conjunct2, THEN conjunct2, THEN conjunct2, THEN conjunct2,
     rule_format, OF pg]
  show "\<exists>c cs. new_calls (start [page_one, page_two]) paged_world = c # cs
         \<and> credentials c = [JStr ''PAGE''] \<and> list_all (\<lambda>c. credentials c = []) cs"
    by (simp add: page_token_def cfg_T_def)
qed

end
